theory Spec2Isabelle
  imports Complex_Main "HOL-Library.Word"
begin

section \<open>Numbers, points and geometries\<close>

text \<open>
  The component computes with JavaScript numbers. They are modelled as mathematical reals:
  rounding of IEEE doubles is not part of this development, and a decimal literal of the
  source (\<open>0.99\<close>, \<open>2.5\<close>) denotes the exact rational. \<open>Math.PI\<close>, \<open>Math.sin\<close> and
  \<open>Math.cos\<close> are \<^term>\<open>pi\<close>, \<^term>\<open>sin\<close> and \<^term>\<open>cos\<close>.
\<close>

type_synonym vec3 = "real \<times> real \<times> real"

definition vx :: "vec3 \<Rightarrow> real" where
  "vx v = fst v"

definition vy :: "vec3 \<Rightarrow> real" where
  "vy v = fst (snd v)"

definition vz :: "vec3 \<Rightarrow> real" where
  "vz v = snd (snd v)"

text \<open>
  The three geometry constructors used by \<open>createGiraffe\<close>, with their arguments in the
  order of the source: \<open>BoxGeometry(width, height, depth)\<close>,
  \<open>CylinderGeometry(radiusTop, radiusBottom, height)\<close> and
  \<open>SphereGeometry(radius, widthSegments, heightSegments)\<close>.
\<close>

datatype geometry_kind =
    BoxGeometry real real real
  | CylinderGeometry real real real
  | SphereGeometry real nat nat

text \<open>
  \<open>translate\<close>, \<open>rotateX\<close> and \<open>rotateY\<close> bake a transformation into the vertices of a
  geometry. A geometry is its constructor together with the transformations baked into it,
  oldest first.
\<close>

datatype geo_op = Translate real real real | RotateX real | RotateY real

record buffer_geometry =
  kind :: geometry_kind
  baked :: "geo_op list"

definition new_geometry :: "geometry_kind \<Rightarrow> buffer_geometry" where
  "new_geometry k = \<lparr>kind = k, baked = []\<rparr>"

definition translate :: "real \<Rightarrow> real \<Rightarrow> real \<Rightarrow> buffer_geometry \<Rightarrow> buffer_geometry" where
  "translate x y z g = g\<lparr>baked := baked g @ [Translate x y z]\<rparr>"

definition rotateX :: "real \<Rightarrow> buffer_geometry \<Rightarrow> buffer_geometry" where
  "rotateX a g = g\<lparr>baked := baked g @ [RotateX a]\<rparr>"

definition rotateY :: "real \<Rightarrow> buffer_geometry \<Rightarrow> buffer_geometry" where
  "rotateY a g = g\<lparr>baked := baked g @ [RotateY a]\<rparr>"

text \<open>\<open>clone\<close> gives a fresh geometry with the same contents.\<close>

definition clone :: "buffer_geometry \<Rightarrow> buffer_geometry" where
  "clone g = g"

text \<open>
  What a baked transformation does to a vertex: the translation and the rotation matrices
  of the rendering library (\<open>makeTranslation\<close>, \<open>makeRotationX\<close>, \<open>makeRotationY\<close>).
\<close>

fun apply_op :: "geo_op \<Rightarrow> vec3 \<Rightarrow> vec3" where
  "apply_op (Translate x y z) (a, b, c) = (a + x, b + y, c + z)"
| "apply_op (RotateX t) (a, b, c) = (a, b * cos t - c * sin t, b * sin t + c * cos t)"
| "apply_op (RotateY t) (a, b, c) = (a * cos t + c * sin t, b, c * cos t - a * sin t)"

definition vertex_at :: "buffer_geometry \<Rightarrow> vec3 \<Rightarrow> vec3" where
  "vertex_at g v = foldl (\<lambda>p t. apply_op t p) v (baked g)"

text \<open>The image of the constructor's own centre, the origin.\<close>

definition centre :: "buffer_geometry \<Rightarrow> vec3" where
  "centre g = vertex_at g (0, 0, 0)"

text \<open>
  A cylinder is built around the origin along the vertical axis, from \<open>-height/2\<close> to
  \<open>height/2\<close>: the centre of its bottom cap, before and after the baked transformations.
\<close>

fun bottom_local :: "geometry_kind \<Rightarrow> vec3" where
  "bottom_local (BoxGeometry w h d) = (0, - h / 2, 0)"
| "bottom_local (CylinderGeometry rt rb h) = (0, - h / 2, 0)"
| "bottom_local (SphereGeometry r ws hs) = (0, - r, 0)"

definition bottom :: "buffer_geometry \<Rightarrow> vec3" where
  "bottom g = vertex_at g (bottom_local (kind g))"

text \<open>The lengths a constructor was given (segment counts are not lengths).\<close>

fun dims :: "geometry_kind \<Rightarrow> real list" where
  "dims (BoxGeometry w h d) = [w, h, d]"
| "dims (CylinderGeometry rt rb h) = [rt, rb, h]"
| "dims (SphereGeometry r ws hs) = [r]"

section \<open>Materials, meshes and the group\<close>

text \<open>
  \<open>createTexturedMaterial\<close> returns a standard material of the given colour with roughness
  0.8 whose fragment shader is patched (see the section on the shader); the eyes use a
  basic material of colour \<open>0x000000\<close>.
\<close>

datatype material =
    TexturedMaterial string real
  | MeshBasicMaterial nat

definition createTexturedMaterial :: "string \<Rightarrow> material" where
  "createTexturedMaterial baseColorValue = TexturedMaterial baseColorValue 0.8"

text \<open>
  A mesh holds a geometry, which is either one geometry or the result of
  \<open>mergeGeometries\<close>: the geometries merged, in the order of the list.
\<close>

record mesh =
  geometry :: "buffer_geometry list"
  mesh_material :: material
  position :: vec3
  castShadow :: bool
  receiveShadow :: bool

definition mergeGeometries :: "buffer_geometry list \<Rightarrow> buffer_geometry list" where
  "mergeGeometries gs = gs"

definition new_mesh :: "buffer_geometry list \<Rightarrow> material \<Rightarrow> mesh" where
  "new_mesh g m =
     \<lparr>geometry = g, mesh_material = m, position = (0, 0, 0),
      castShadow = False, receiveShadow = False\<rparr>"

record giraffe_group =
  children :: "mesh list"
  group_position :: vec3

section \<open>createGiraffe\<close>

subsection \<open>Body, legs, tail and neck\<close>

definition bodyHeight :: real where
  "bodyHeight = 3"

definition bodyGeo :: buffer_geometry where
  "bodyGeo = new_geometry (BoxGeometry 3 bodyHeight 5)"

definition legGeo :: "real \<Rightarrow> buffer_geometry" where
  "legGeo legLength = new_geometry (CylinderGeometry 0.4 0.3 legLength)"

definition legY :: "real \<Rightarrow> real" where
  "legY legLength = - (bodyHeight / 2) - (legLength / 2)"

definition legPositions :: "(real \<times> real) list" where
  "legPositions = [(1.2, 2), (-1.2, 2), (1.2, -2), (-1.2, -2)]"

definition legs :: "real \<Rightarrow> buffer_geometry list" where
  "legs legLength =
     map (\<lambda>(x, z). translate x (legY legLength) z (clone (legGeo legLength))) legPositions"

definition tailLength :: real where
  "tailLength = 2.0"

definition tailAngle :: real where
  "tailAngle = pi / 4"

definition tailAttachY :: real where
  "tailAttachY = 1.0"

definition tailAttachZ :: real where
  "tailAttachZ = -2.5"

definition tailGeo :: buffer_geometry where
  "tailGeo =
     translate 0 tailAttachY tailAttachZ
       (rotateX tailAngle
         (translate 0 (- tailLength / 2) 0
           (new_geometry (CylinderGeometry 0.1 0.08 tailLength))))"

definition tasselSize :: real where
  "tasselSize = 0.4"

definition tasselY :: real where
  "tasselY = tailAttachY - tailLength * cos tailAngle"

definition tasselZ :: real where
  "tasselZ = tailAttachZ - tailLength * sin tailAngle"

definition tasselGeo :: buffer_geometry where
  "tasselGeo =
     translate 0 tasselY tasselZ (new_geometry (BoxGeometry tasselSize tasselSize tasselSize))"

definition bodyTopY :: real where
  "bodyTopY = bodyHeight / 2"

definition neckRadiusBottom :: real where
  "neckRadiusBottom = 0.95"

definition neckRadiusTop :: real where
  "neckRadiusTop = 0.75"

definition neckCenterY :: "real \<Rightarrow> real" where
  "neckCenterY neckLength = bodyTopY + (neckLength / 2)"

definition neckBaseZ :: real where
  "neckBaseZ = 1.5"

definition neckGeo :: "real \<Rightarrow> buffer_geometry" where
  "neckGeo neckLength =
     translate 0 (neckCenterY neckLength) neckBaseZ
       (new_geometry (CylinderGeometry neckRadiusTop neckRadiusBottom neckLength))"

subsection \<open>Head, snout, horns, ears and eyes\<close>

definition neckTopY :: "real \<Rightarrow> real" where
  "neckTopY neckLength = bodyTopY + neckLength"

text \<open>\<open>headDim\<close>, \<open>snoutDim\<close> and \<open>earDim\<close> are the objects \<open>{w, h, d}\<close> of the source.\<close>

definition headDim :: "real \<Rightarrow> vec3" where
  "headDim headSize = (2 * headSize, 2 * headSize, 2.5 * headSize)"

definition dim_w :: "vec3 \<Rightarrow> real" where
  "dim_w v = fst v"

definition dim_h :: "vec3 \<Rightarrow> real" where
  "dim_h v = fst (snd v)"

definition dim_d :: "vec3 \<Rightarrow> real" where
  "dim_d v = snd (snd v)"

definition box_of :: "vec3 \<Rightarrow> geometry_kind" where
  "box_of v = BoxGeometry (dim_w v) (dim_h v) (dim_d v)"

definition headCenterY :: "real \<Rightarrow> real \<Rightarrow> real" where
  "headCenterY neckLength headSize = neckTopY neckLength + (dim_h (headDim headSize) / 2)"

definition headCenterZ :: real where
  "headCenterZ = 2"

definition headGeo :: "real \<Rightarrow> real \<Rightarrow> buffer_geometry" where
  "headGeo neckLength headSize =
     translate 0 (headCenterY neckLength headSize) headCenterZ
       (new_geometry (box_of (headDim headSize)))"

definition snoutDim :: "real \<Rightarrow> vec3" where
  "snoutDim headSize = (1.5 * headSize, 0.99 * headSize, 1.5 * headSize)"

definition snoutGeo :: "real \<Rightarrow> real \<Rightarrow> buffer_geometry" where
  "snoutGeo neckLength headSize =
     translate 0 (headCenterY neckLength headSize - 0.5 * headSize)
       (headCenterZ + (dim_d (headDim headSize) / 2))
       (new_geometry (box_of (snoutDim headSize)))"

definition hornRadius :: "real \<Rightarrow> real" where
  "hornRadius headSize = 0.2 * headSize"

definition hornGeo :: "real \<Rightarrow> real \<Rightarrow> buffer_geometry" where
  "hornGeo hornLength headSize =
     new_geometry (CylinderGeometry (hornRadius headSize) (hornRadius headSize) hornLength)"

definition headTopY :: "real \<Rightarrow> real \<Rightarrow> real" where
  "headTopY neckLength headSize =
     headCenterY neckLength headSize + (dim_h (headDim headSize) / 2)"

definition hornY :: "real \<Rightarrow> real \<Rightarrow> real \<Rightarrow> real" where
  "hornY neckLength hornLength headSize = headTopY neckLength headSize + (hornLength / 2)"

definition hornX :: "real \<Rightarrow> real" where
  "hornX headSize = 0.7 * headSize"

definition hornZ :: "real \<Rightarrow> real" where
  "hornZ headSize = headCenterZ - 0.5 * headSize"

definition horn1Geo :: "real \<Rightarrow> real \<Rightarrow> real \<Rightarrow> buffer_geometry" where
  "horn1Geo neckLength hornLength headSize =
     translate (hornX headSize) (hornY neckLength hornLength headSize) (hornZ headSize)
       (clone (hornGeo hornLength headSize))"

definition horn2Geo :: "real \<Rightarrow> real \<Rightarrow> real \<Rightarrow> buffer_geometry" where
  "horn2Geo neckLength hornLength headSize =
     translate (- hornX headSize) (hornY neckLength hornLength headSize) (hornZ headSize)
       (clone (hornGeo hornLength headSize))"

definition earDim :: "real \<Rightarrow> vec3" where
  "earDim headSize = (0.8 * headSize, 0.6 * headSize, 0.2 * headSize)"

definition earGeo :: "real \<Rightarrow> buffer_geometry" where
  "earGeo headSize = new_geometry (box_of (earDim headSize))"

definition earX :: "real \<Rightarrow> real" where
  "earX headSize = (dim_w (headDim headSize) / 2) + (dim_w (earDim headSize) / 2)"

definition earY :: "real \<Rightarrow> real \<Rightarrow> real" where
  "earY neckLength headSize = headCenterY neckLength headSize + 0.5 * headSize"

definition earZ :: real where
  "earZ = headCenterZ"

definition ear1Geo :: "real \<Rightarrow> real \<Rightarrow> buffer_geometry" where
  "ear1Geo neckLength headSize =
     translate (earX headSize) (earY neckLength headSize) earZ (clone (earGeo headSize))"

definition ear2Geo :: "real \<Rightarrow> real \<Rightarrow> buffer_geometry" where
  "ear2Geo neckLength headSize =
     translate (- earX headSize) (earY neckLength headSize) earZ (clone (earGeo headSize))"

definition eyeMaterial :: material where
  "eyeMaterial = MeshBasicMaterial 0"

definition eyeRadius :: "real \<Rightarrow> real" where
  "eyeRadius headSize = 0.2 * headSize"

definition eyeGeo :: "real \<Rightarrow> buffer_geometry" where
  "eyeGeo headSize = new_geometry (SphereGeometry (eyeRadius headSize) 16 16)"

definition eyeX :: "real \<Rightarrow> real" where
  "eyeX headSize = 0.7 * headSize"

definition eyeY :: "real \<Rightarrow> real \<Rightarrow> real" where
  "eyeY neckLength headSize = headCenterY neckLength headSize + 0.3 * headSize"

definition eyeZ :: "real \<Rightarrow> real" where
  "eyeZ headSize = headCenterZ + (dim_d (headDim headSize) / 2) - (eyeRadius headSize / 2)"

definition eye1 :: "real \<Rightarrow> real \<Rightarrow> mesh" where
  "eye1 neckLength headSize =
     (new_mesh [eyeGeo headSize] eyeMaterial)
       \<lparr>position := (eyeX headSize, eyeY neckLength headSize, eyeZ headSize)\<rparr>"

text \<open>\<open>eye2\<close> is a clone of \<open>eye1\<close> whose \<open>position.x\<close> is overwritten.\<close>

definition eye2 :: "real \<Rightarrow> real \<Rightarrow> mesh" where
  "eye2 neckLength headSize =
     (let e = eye1 neckLength headSize
      in e\<lparr>position := (- eyeX headSize, fst (snd (position e)), snd (snd (position e)))\<rparr>)"

subsection \<open>Spots\<close>

text \<open>
  \<open>Math.random()\<close> is unseeded. The values it returns during one call of \<open>createGiraffe\<close>
  are a parameter \<open>rnd\<close> of the model: \<open>rnd i\<close> is the value of the \<open>i\<close>-th call, counted
  from 0. Each \<open>forEach\<close> below threads the number of calls made so far.
\<close>

definition bodySpotPositionsZ :: "vec3 list" where
  "bodySpotPositionsZ =
     [(1, 1, 2.5), (-1.2, 0.5, 2.5), (0.5, -1, 2.5),
      (1, 1, -2.5), (-1.2, 0.5, -2.5), (0.5, -1, -2.5)]"

definition bodySpotPositionsX :: "vec3 list" where
  "bodySpotPositionsX =
     [(1.5, 1, 1.8), (1.5, -0.5, 0), (1.5, 0.8, -1.5),
      (-1.5, 1, 1.8), (-1.5, -0.5, 0), (-1.5, 0.8, -1.5)]"

fun bodySpotsZ :: "(nat \<Rightarrow> real) \<Rightarrow> nat \<Rightarrow> vec3 list \<Rightarrow> buffer_geometry list" where
  "bodySpotsZ rnd i [] = []"
| "bodySpotsZ rnd i ((x, y, z) # ps) =
     (let spotWidth = 0.5 + rnd i * 0.4;
          spotHeight = 0.5 + rnd (i + 1) * 0.4;
          spotGeoZ = new_geometry (BoxGeometry spotWidth spotHeight 0.1)
      in translate x y z spotGeoZ # bodySpotsZ rnd (i + 2) ps)"

fun bodySpotsX :: "(nat \<Rightarrow> real) \<Rightarrow> nat \<Rightarrow> vec3 list \<Rightarrow> buffer_geometry list" where
  "bodySpotsX rnd i [] = []"
| "bodySpotsX rnd i ((x, y, z) # ps) =
     (let spotHeight = 0.5 + rnd i * 0.4;
          spotDepth = 0.5 + rnd (i + 1) * 0.4;
          spotGeoX = new_geometry (BoxGeometry 0.1 spotHeight spotDepth)
      in translate x y z spotGeoX # bodySpotsX rnd (i + 2) ps)"

text \<open>The neck catalogue: the pairs \<open>{p, angle}\<close>.\<close>

definition neckSpotParams :: "(real \<times> real) list" where
  "neckSpotParams = [(0.2, pi / 5), (0.45, - pi / 3), (0.7, pi / 1.5), (0.9, pi)]"

definition neckSpotRadius :: "real \<Rightarrow> real" where
  "neckSpotRadius p = neckRadiusBottom - p * (neckRadiusBottom - neckRadiusTop)"

fun neckSpots :: "real \<Rightarrow> (nat \<Rightarrow> real) \<Rightarrow> nat \<Rightarrow> (real \<times> real) list \<Rightarrow> buffer_geometry list" where
  "neckSpots neckLength rnd i [] = []"
| "neckSpots neckLength rnd i ((p, angle) # ps) =
     (let spotWidth = 0.4 + rnd i * 0.3;
          spotHeight = 0.4 + rnd (i + 1) * 0.3;
          geo = new_geometry (BoxGeometry spotWidth spotHeight 0.1);
          y = bodyTopY + p * neckLength;
          radius = neckSpotRadius p
      in translate (radius * sin angle) y (neckBaseZ + radius * cos angle) (rotateY angle geo)
         # neckSpots neckLength rnd (i + 2) ps)"

subsection \<open>The two lists and the group\<close>

text \<open>\<open>giraffeGeometries\<close> and \<open>spotGeometries\<close> after the last \<open>push\<close>, in push order.\<close>

definition giraffeGeometries :: "real \<Rightarrow> real \<Rightarrow> real \<Rightarrow> buffer_geometry list" where
  "giraffeGeometries neckLength legLength headSize =
     [bodyGeo] @ legs legLength @ [tailGeo] @ [neckGeo neckLength]
     @ [headGeo neckLength headSize]
     @ [ear1Geo neckLength headSize, ear2Geo neckLength headSize]"

definition spotGeometries :: "real \<Rightarrow> real \<Rightarrow> real \<Rightarrow> (nat \<Rightarrow> real) \<Rightarrow> buffer_geometry list" where
  "spotGeometries neckLength hornLength headSize rnd =
     [tasselGeo] @ [snoutGeo neckLength headSize]
     @ [horn1Geo neckLength hornLength headSize, horn2Geo neckLength hornLength headSize]
     @ bodySpotsZ rnd 0 bodySpotPositionsZ
     @ bodySpotsX rnd 12 bodySpotPositionsX
     @ neckSpots neckLength rnd 24 neckSpotParams"

definition shadowed_mesh :: "buffer_geometry list \<Rightarrow> material \<Rightarrow> mesh" where
  "shadowed_mesh gs m = (new_mesh (mergeGeometries gs) m)\<lparr>castShadow := True, receiveShadow := True\<rparr>"

definition createGiraffe ::
  "real \<Rightarrow> real \<Rightarrow> real \<Rightarrow> real \<Rightarrow> string \<Rightarrow> string \<Rightarrow> (nat \<Rightarrow> real) \<Rightarrow> giraffe_group" where
  "createGiraffe neckLength legLength hornLength headSize color spotColorValue rnd =
     (let giraffeMaterial = createTexturedMaterial color;
          spotMaterial = createTexturedMaterial spotColorValue;
          gs = giraffeGeometries neckLength legLength headSize;
          ss = spotGeometries neckLength hornLength headSize rnd
      in \<lparr>children =
            [eye1 neckLength headSize, eye2 neckLength headSize]
            @ (if length gs > 0 then [shadowed_mesh gs giraffeMaterial] else [])
            @ (if length ss > 0 then [shadowed_mesh ss spotMaterial] else []),
          group_position = (0, legLength + (bodyHeight / 2), 0)\<rparr>)"

text \<open>A point of a child, seen from the parent of the group: the group's translation applied.\<close>

definition in_world :: "giraffe_group \<Rightarrow> vec3 \<Rightarrow> vec3" where
  "in_world g v = apply_op (Translate (fst (group_position g)) (fst (snd (group_position g)))
                              (snd (snd (group_position g)))) v"

subsection \<open>Reading the group\<close>

text \<open>
  The children of the group are, in the order they are added: the two eyes, the mesh of the
  merged \<open>giraffeGeometries\<close> (the structural group) and the mesh of the merged
  \<open>spotGeometries\<close> (the pattern group).
\<close>

definition eyes :: "giraffe_group \<Rightarrow> mesh list" where
  "eyes g = take 2 (children g)"

definition structural :: "giraffe_group \<Rightarrow> buffer_geometry list" where
  "structural g = geometry (children g ! 2)"

definition pattern :: "giraffe_group \<Rightarrow> buffer_geometry list" where
  "pattern g = geometry (children g ! 3)"

text \<open>Positions in the two lists, by push order.\<close>

definition body_of :: "giraffe_group \<Rightarrow> buffer_geometry" where
  "body_of g = structural g ! 0"

definition legs_of :: "giraffe_group \<Rightarrow> buffer_geometry list" where
  "legs_of g = take 4 (drop 1 (structural g))"

definition tail_of :: "giraffe_group \<Rightarrow> buffer_geometry" where
  "tail_of g = structural g ! 5"

definition neck_of :: "giraffe_group \<Rightarrow> buffer_geometry" where
  "neck_of g = structural g ! 6"

definition head_of :: "giraffe_group \<Rightarrow> buffer_geometry" where
  "head_of g = structural g ! 7"

definition ears_of :: "giraffe_group \<Rightarrow> buffer_geometry list" where
  "ears_of g = drop 8 (structural g)"

definition tassel_of :: "giraffe_group \<Rightarrow> buffer_geometry" where
  "tassel_of g = pattern g ! 0"

definition snout_of :: "giraffe_group \<Rightarrow> buffer_geometry" where
  "snout_of g = pattern g ! 1"

definition horns_of :: "giraffe_group \<Rightarrow> buffer_geometry list" where
  "horns_of g = take 2 (drop 2 (pattern g))"

definition body_spots_of :: "giraffe_group \<Rightarrow> buffer_geometry list" where
  "body_spots_of g = take 12 (drop 4 (pattern g))"

definition neck_spots_of :: "giraffe_group \<Rightarrow> buffer_geometry list" where
  "neck_spots_of g = drop 16 (pattern g)"

text \<open>The centre of the top cap of a cylinder (the top face of a box, the top of a sphere).\<close>

fun top_local :: "geometry_kind \<Rightarrow> vec3" where
  "top_local (BoxGeometry w h d) = (0, h / 2, 0)"
| "top_local (CylinderGeometry rt rb h) = (0, h / 2, 0)"
| "top_local (SphereGeometry r ws hs) = (0, r, 0)"

definition top :: "buffer_geometry \<Rightarrow> vec3" where
  "top g = vertex_at g (top_local (kind g))"

definition vsub :: "vec3 \<Rightarrow> vec3 \<Rightarrow> vec3" where
  "vsub a b = (fst a - fst b, fst (snd a) - fst (snd b), snd (snd a) - snd (snd b))"

definition vscale :: "real \<Rightarrow> vec3 \<Rightarrow> vec3" where
  "vscale k a = (k * fst a, k * fst (snd a), k * snd (snd a))"

text \<open>
  \<open>scaled_about k o1 c1 d1 o2 c2 d2\<close>: the lengths \<open>d2\<close> are \<open>k\<close> times the lengths
  \<open>d1\<close>, and the point \<open>c2\<close> seen from \<open>o2\<close> is \<open>k\<close> times the point \<open>c1\<close> seen from
  \<open>o1\<close>.
\<close>

definition scaled_about ::
  "real \<Rightarrow> vec3 \<Rightarrow> vec3 \<Rightarrow> real list \<Rightarrow> vec3 \<Rightarrow> vec3 \<Rightarrow> real list \<Rightarrow> bool" where
  "scaled_about k o1 c1 d1 o2 c2 d2 \<longleftrightarrow>
     d2 = map ((*) k) d1 \<and> vsub c2 o2 = vscale k (vsub c1 o1)"

definition geo_scaled ::
  "real \<Rightarrow> vec3 \<Rightarrow> buffer_geometry \<Rightarrow> vec3 \<Rightarrow> buffer_geometry \<Rightarrow> bool" where
  "geo_scaled k o1 p1 o2 p2 \<longleftrightarrow>
     scaled_about k o1 (centre p1) (dims (kind p1)) o2 (centre p2) (dims (kind p2))"

definition eye_scaled :: "real \<Rightarrow> vec3 \<Rightarrow> mesh \<Rightarrow> vec3 \<Rightarrow> mesh \<Rightarrow> bool" where
  "eye_scaled k o1 e1 o2 e2 \<longleftrightarrow>
     scaled_about k o1 (position e1) (concat (map (dims \<circ> kind) (geometry e1)))
                    o2 (position e2) (concat (map (dims \<circ> kind) (geometry e2)))"

text \<open>
  A horn is measured at the centre of its base: its two radii and the position of the base
  are scaled, its height (the third length) is the same.
\<close>

definition horn_scaled ::
  "real \<Rightarrow> vec3 \<Rightarrow> buffer_geometry \<Rightarrow> vec3 \<Rightarrow> buffer_geometry \<Rightarrow> bool" where
  "horn_scaled k o1 p1 o2 p2 \<longleftrightarrow>
     scaled_about k o1 (bottom p1) (take 2 (dims (kind p1)))
                    o2 (bottom p2) (take 2 (dims (kind p2)))
     \<and> drop 2 (dims (kind p2)) = drop 2 (dims (kind p1))"

text \<open>
  The point at the height of the neck top and at the fixed depth \<open>headCenterZ\<close> of the head
  centre.
\<close>

definition head_anchor :: "giraffe_group \<Rightarrow> vec3" where
  "head_anchor g = (0, fst (snd (top (neck_of g))), headCenterZ)"

definition in_range :: "real \<Rightarrow> real \<Rightarrow> real \<Rightarrow> bool" where
  "in_range lo hi x \<longleftrightarrow> lo \<le> x \<and> x \<le> hi"

text \<open>
  A spot is a thin box: \<open>z_spot_ok lo hi\<close> holds of a box of depth 0.1 whose width and
  height lie between \<open>lo\<close> and \<open>hi\<close>, \<open>x_spot_ok lo hi\<close> of a box of width 0.1 whose
  height and depth do.
\<close>

fun z_spot_ok :: "real \<Rightarrow> real \<Rightarrow> geometry_kind \<Rightarrow> bool" where
  "z_spot_ok lo hi (BoxGeometry w h d) = (in_range lo hi w \<and> in_range lo hi h \<and> d = 0.1)"
| "z_spot_ok lo hi (CylinderGeometry rt rb h) = False"
| "z_spot_ok lo hi (SphereGeometry r ws hs) = False"

fun x_spot_ok :: "real \<Rightarrow> real \<Rightarrow> geometry_kind \<Rightarrow> bool" where
  "x_spot_ok lo hi (BoxGeometry w h d) = (w = 0.1 \<and> in_range lo hi h \<and> in_range lo hi d)"
| "x_spot_ok lo hi (CylinderGeometry rt rb h) = False"
| "x_spot_ok lo hi (SphereGeometry r ws hs) = False"

text \<open>The geometries of a list whose centre has the given coordinate on the given axis.\<close>

definition spots_at ::
  "(vec3 \<Rightarrow> real) \<Rightarrow> real \<Rightarrow> buffer_geometry list \<Rightarrow> buffer_geometry list" where
  "spots_at axis v gs = filter (\<lambda>g. axis (centre g) = v) gs"

text \<open>
  \<open>Math.random()\<close> returns a number that is at least 0 and less than 1;
  \<open>constant_random v\<close> is the sequence that always returns \<open>v\<close>.
\<close>

definition unit_random :: "(nat \<Rightarrow> real) \<Rightarrow> bool" where
  "unit_random rnd \<longleftrightarrow> (\<forall>i. 0 \<le> rnd i \<and> rnd i < 1)"

definition constant_random :: "real \<Rightarrow> nat \<Rightarrow> real" where
  "constant_random v i = v"

text \<open>A sequence whose first 32 values are all different: 0, 1/32, 2/32, ...\<close>

definition ramp_random :: "nat \<Rightarrow> real" where
  "ramp_random i = real (i mod 32) / 32"

text \<open>Linear interpolation from \<open>a\<close> (at \<open>p = 0\<close>) to \<open>b\<close> (at \<open>p = 1\<close>).\<close>

definition lerp :: "real \<Rightarrow> real \<Rightarrow> real \<Rightarrow> real" where
  "lerp a b p = (1 - p) * a + p * b"

section \<open>The fragment shader patch\<close>








section \<open>The component\<close>

subsection \<open>The rendering library, as the calls made on it\<close>

text \<open>
  The scene and the GPU-side buffers and materials belong to the rendering library. The
  component's effect on them is the sequence of calls it makes; what the scene holds and
  which resources are allocated after a sequence of calls is obtained by replaying it.
  A group gets an identity (a number) when it is created. The geometry and the material
  of the \<open>i\<close>-th mesh of group \<open>m\<close> are the resources \<open>GeometryOf m i\<close> and
  \<open>MaterialOf m i\<close>; they count as allocated from the creation of the group to their
  \<open>dispose()\<close>. The two eyes share one geometry and one material, which are named once
  for each eye here and disposed once for each eye by the source.
\<close>

datatype scene_object = AmbientLight | DirectionalLight | Model nat

datatype resource = GeometryOf nat nat | MaterialOf nat nat

datatype lib_call =
    NewScene
  | SceneAdd scene_object
  | SceneRemove scene_object
  | NewModel nat nat
  | Dispose resource

fun owner :: "resource \<Rightarrow> nat" where
  "owner (GeometryOf m i) = m"
| "owner (MaterialOf m i) = m"

definition resources_of :: "nat \<Rightarrow> nat \<Rightarrow> resource list" where
  "resources_of m k = concat (map (\<lambda>i. [GeometryOf m i, MaterialOf m i]) [0..<k])"

record world =
  scene_children :: "scene_object list"
  allocated :: "resource list"

definition empty_world :: world where
  "empty_world = \<lparr>scene_children = [], allocated = []\<rparr>"

fun effect :: "lib_call \<Rightarrow> world \<Rightarrow> world" where
  "effect NewScene w = w\<lparr>scene_children := []\<rparr>"
| "effect (SceneAdd x) w = w\<lparr>scene_children := removeAll x (scene_children w) @ [x]\<rparr>"
| "effect (SceneRemove x) w = w\<lparr>scene_children := removeAll x (scene_children w)\<rparr>"
| "effect (NewModel m k) w = w\<lparr>allocated := allocated w @ resources_of m k\<rparr>"
| "effect (Dispose r) w = w\<lparr>allocated := removeAll r (allocated w)\<rparr>"

definition replay :: "world \<Rightarrow> lib_call list \<Rightarrow> world" where
  "replay w cs = foldl (\<lambda>w c. effect c w) w cs"

fun is_model :: "scene_object \<Rightarrow> bool" where
  "is_model (Model m) = True"
| "is_model AmbientLight = False"
| "is_model DirectionalLight = False"

definition live_models :: "world \<Rightarrow> nat list" where
  "live_models w = remdups (map owner (allocated w))"

definition scene_models :: "world \<Rightarrow> scene_object list" where
  "scene_models w = filter is_model (scene_children w)"

definition at_most_one :: "world \<Rightarrow> bool" where
  "at_most_one w \<longleftrightarrow> length (live_models w) \<le> 1 \<and> length (scene_models w) \<le> 1"

text \<open>\<open>all_along P w cs\<close>: \<open>P\<close> holds before the calls \<open>cs\<close> and after each of them.\<close>

fun all_along :: "(world \<Rightarrow> bool) \<Rightarrow> world \<Rightarrow> lib_call list \<Rightarrow> bool" where
  "all_along P w [] = P w"
| "all_along P w (c # cs) = (P w \<and> all_along P (effect c w) cs)"

subsection \<open>State\<close>

text \<open>
  \<open>clientWidth\<close> and \<open>clientHeight\<close> are non-negative integers. A quotient of two of them
  is \<open>None\<close> where JavaScript gives \<open>Infinity\<close> or \<open>NaN\<close>.
\<close>

definition js_div :: "nat \<Rightarrow> nat \<Rightarrow> real option" where
  "js_div w h = (if h = 0 then None else Some (real w / real h))"

text \<open>
  \<open>projection_aspect\<close> is the aspect the projection matrix was last computed from
  (by the constructor or by \<open>updateProjectionMatrix\<close>).
\<close>

record camera_state =
  aspect :: "real option"
  projection_aspect :: "real option"

record renderer_state =
  renderer_size :: "nat \<times> nat"
  renderer_disposed :: bool

datatype blob = Bytes "8 word list" | Text string

record download =
  filename :: string
  mime :: string
  content :: blob

text \<open>
  The fields of the component. \<open>giraffe\<close> is \<open>null\<close> or a group, with its identity.

  The next five fields are the framework's record of the two effects the constructor
  creates. An effect is created dirty. It runs at a change detection when it is dirty and
  the component is alive, and it then subscribes to the signals it read during that run.
  Setting a signal to a different value marks dirty the effects subscribed to it; setting
  it to the value it has does nothing. Destroying the component destroys its effects.
  \<open>redraw_reads_model\<close> holds when the last run of the first effect called
  \<open>redrawGiraffe\<close> and so read the six signals of the model; \<open>autoRotate_reads\<close> holds when
  the last run of the second effect read \<open>autoRotate\<close>. Both effects read
  \<open>isViewInitialized\<close> whenever they run.

  The last five fields are not fields of the class either: the calls made on the library,
  what \<open>console.error\<close> was given, the files handed to the browser for download, the number
  of groups created and the number of calls of \<open>Math.random\<close> so far.
\<close>

record app_state =
  canvasRef :: bool
  canvasContainerRef :: bool
  renderer :: "renderer_state option"
  camera :: "camera_state option"
  controls_autoRotate :: bool
  animationFrameId :: "nat option"
  giraffe :: "(nat \<times> giraffe_group) option"
  giraffeName :: string
  neckLength :: real
  legLength :: real
  hornLength :: real
  headSize :: real
  giraffeColor :: string
  spotColor :: string
  autoRotate :: bool
  isViewInitialized :: bool
  redraw_dirty :: bool
  redraw_reads_model :: bool
  autoRotate_dirty :: bool
  autoRotate_reads :: bool
  effects_destroyed :: bool
  calls :: "lib_call list"
  console_errors :: "string list list"
  downloads :: "download list"
  models_created :: nat
  random_calls :: nat

text \<open>The field initialisers; the two view references are resolved by the framework.\<close>

definition initial_state :: "bool \<Rightarrow> bool \<Rightarrow> app_state" where
  "initial_state canvas container =
     \<lparr>canvasRef = canvas, canvasContainerRef = container,
      renderer = None, camera = None, controls_autoRotate = False,
      animationFrameId = None, giraffe = None,
      giraffeName = ''Gigi'', neckLength = 6, legLength = 4, hornLength = 0.8, headSize = 1,
      giraffeColor = ''#FFC300'', spotColor = ''#8B4513'', autoRotate = False,
      isViewInitialized = False,
      redraw_dirty = True, redraw_reads_model = False,
      autoRotate_dirty = True, autoRotate_reads = False, effects_destroyed = False,
      calls = [], console_errors = [], downloads = [],
      models_created = 0, random_calls = 0\<rparr>"

subsection \<open>removeGiraffe and redrawGiraffe\<close>

text \<open>
  \<open>traverse\<close> visits the group and its children; every child is a mesh with one material,
  so the callback disposes the geometry and the material of each child, in order.
\<close>

definition dispose_traverse :: "nat \<Rightarrow> giraffe_group \<Rightarrow> lib_call list" where
  "dispose_traverse m g = map Dispose (resources_of m (length (children g)))"

definition removeGiraffe :: "app_state \<Rightarrow> app_state" where
  "removeGiraffe s =
     (case giraffe s of
        None \<Rightarrow> s
      | Some (m, g) \<Rightarrow>
          s\<lparr>calls := calls s @ [SceneRemove (Model m)] @ dispose_traverse m g,
            giraffe := None\<rparr>)"

text \<open>
  \<open>rng\<close> is the sequence of all values \<open>Math.random\<close> returns during the run; one call of
  \<open>createGiraffe\<close> consumes 32 of them. Re-targeting the orbit controls at the centre of
  the bounding box is not modelled.
\<close>

definition redrawGiraffe :: "(nat \<Rightarrow> real) \<Rightarrow> app_state \<Rightarrow> app_state" where
  "redrawGiraffe rng s =
     (let s1 = removeGiraffe s;
          g = createGiraffe (neckLength s1) (legLength s1) (hornLength s1) (headSize s1)
                (giraffeColor s1) (spotColor s1) (\<lambda>i. rng (random_calls s1 + i));
          m = models_created s1
      in s1\<lparr>giraffe := Some (m, g),
            calls := calls s1 @ [NewModel m (length (children g))] @ [SceneAdd (Model m)],
            models_created := Suc m,
            random_calls := random_calls s1 + 32\<rparr>)"

subsection \<open>Signals and effects\<close>

text \<open>
  The body of the first effect reads \<open>isViewInitialized\<close> and, when it holds, calls
  \<open>redrawGiraffe\<close>, which reads the six signals of the model. The body of the second effect
  reads \<open>isViewInitialized\<close> and, when it holds, reads \<open>autoRotate\<close>.
\<close>

definition redraw_effect :: "(nat \<Rightarrow> real) \<Rightarrow> app_state \<Rightarrow> app_state" where
  "redraw_effect rng s = (if isViewInitialized s then redrawGiraffe rng s else s)"

definition autoRotate_effect :: "app_state \<Rightarrow> app_state" where
  "autoRotate_effect s =
     (if isViewInitialized s then s\<lparr>controls_autoRotate := autoRotate s\<rparr> else s)"

text \<open>A run of an effect by the framework: the body, then the effect is clean and subscribed.\<close>

definition run_redraw_effect :: "(nat \<Rightarrow> real) \<Rightarrow> app_state \<Rightarrow> app_state" where
  "run_redraw_effect rng s =
     (redraw_effect rng s)\<lparr>redraw_dirty := False, redraw_reads_model := isViewInitialized s\<rparr>"

definition run_autoRotate_effect :: "app_state \<Rightarrow> app_state" where
  "run_autoRotate_effect s =
     (autoRotate_effect s)\<lparr>autoRotate_dirty := False, autoRotate_reads := isViewInitialized s\<rparr>"

text \<open>
  A change detection of the framework: while the component is alive, the dirty effects run,
  in the order of their creation.
\<close>

definition changeDetection :: "(nat \<Rightarrow> real) \<Rightarrow> app_state \<Rightarrow> app_state" where
  "changeDetection rng s =
     (if effects_destroyed s then s
      else
        (let s1 = (if redraw_dirty s then run_redraw_effect rng s else s)
         in if autoRotate_dirty s1 then run_autoRotate_effect s1 else s1))"

text \<open>What \<open>set\<close> tells the effects, after one of the six signals of the model has changed.\<close>

definition notify_redraw :: "app_state \<Rightarrow> app_state" where
  "notify_redraw s = s\<lparr>redraw_dirty := redraw_dirty s \<or> redraw_reads_model s\<rparr>"

definition notify_autoRotate :: "app_state \<Rightarrow> app_state" where
  "notify_autoRotate s = s\<lparr>autoRotate_dirty := autoRotate_dirty s \<or> autoRotate_reads s\<rparr>"

text \<open>
  The handlers: each sets one signal to the value of the event. The argument
  \<open>valueAsNumber\<close> of a numeric handler is the number the input element reports; the value
  \<open>NaN\<close> it reports for an empty field has no counterpart among the reals and is left out.
  No effect subscribes to \<open>giraffeName\<close>.
\<close>

definition onGiraffeNameChange :: "string \<Rightarrow> app_state \<Rightarrow> app_state" where
  "onGiraffeNameChange v s = s\<lparr>giraffeName := v\<rparr>"

definition onNeckLengthChange :: "real \<Rightarrow> app_state \<Rightarrow> app_state" where
  "onNeckLengthChange valueAsNumber s =
     (if valueAsNumber = neckLength s then s
      else notify_redraw (s\<lparr>neckLength := valueAsNumber\<rparr>))"

definition onLegLengthChange :: "real \<Rightarrow> app_state \<Rightarrow> app_state" where
  "onLegLengthChange valueAsNumber s =
     (if valueAsNumber = legLength s then s
      else notify_redraw (s\<lparr>legLength := valueAsNumber\<rparr>))"

definition onHornLengthChange :: "real \<Rightarrow> app_state \<Rightarrow> app_state" where
  "onHornLengthChange valueAsNumber s =
     (if valueAsNumber = hornLength s then s
      else notify_redraw (s\<lparr>hornLength := valueAsNumber\<rparr>))"

definition onHeadSizeChange :: "real \<Rightarrow> app_state \<Rightarrow> app_state" where
  "onHeadSizeChange valueAsNumber s =
     (if valueAsNumber = headSize s then s
      else notify_redraw (s\<lparr>headSize := valueAsNumber\<rparr>))"

definition onGiraffeColorChange :: "string \<Rightarrow> app_state \<Rightarrow> app_state" where
  "onGiraffeColorChange v s =
     (if v = giraffeColor s then s else notify_redraw (s\<lparr>giraffeColor := v\<rparr>))"

definition onSpotColorChange :: "string \<Rightarrow> app_state \<Rightarrow> app_state" where
  "onSpotColorChange v s =
     (if v = spotColor s then s else notify_redraw (s\<lparr>spotColor := v\<rparr>))"

definition onAutoRotateChange :: "bool \<Rightarrow> app_state \<Rightarrow> app_state" where
  "onAutoRotateChange checked s =
     (if checked = autoRotate s then s else notify_autoRotate (s\<lparr>autoRotate := checked\<rparr>))"

text \<open>
  \<open>isViewInitialized.set(true)\<close>. Both effects read this signal in every run, and an effect
  that has not run yet is dirty already: a change makes both dirty.
\<close>

definition set_isViewInitialized :: "app_state \<Rightarrow> app_state" where
  "set_isViewInitialized s =
     (if isViewInitialized s then s
      else s\<lparr>isViewInitialized := True, redraw_dirty := True, autoRotate_dirty := True\<rparr>)"

text \<open>The invariant of the parameter set in the specification: all lengths are positive.\<close>

definition valid_parameters :: "app_state \<Rightarrow> bool" where
  "valid_parameters s \<longleftrightarrow>
     0 < neckLength s \<and> 0 < legLength s \<and> 0 < hornLength s \<and> 0 < headSize s"

subsection \<open>Initialisation, resize and teardown\<close>

text \<open>
  \<open>width\<close> and \<open>height\<close> are the \<open>clientWidth\<close> and \<open>clientHeight\<close> of the container at the
  moment of the call.
\<close>

definition initThreeJs :: "nat \<Rightarrow> nat \<Rightarrow> app_state \<Rightarrow> app_state" where
  "initThreeJs width height s =
     (if \<not> canvasContainerRef s then s
      else s\<lparr>camera := Some \<lparr>aspect = js_div width height,
                               projection_aspect = js_div width height\<rparr>,
             renderer := Some \<lparr>renderer_size = (width, height), renderer_disposed = False\<rparr>,
             controls_autoRotate := False,
             calls := calls s @ [NewScene, SceneAdd AmbientLight, SceneAdd DirectionalLight]\<rparr>)"

definition animate :: "nat \<Rightarrow> app_state \<Rightarrow> app_state" where
  "animate frameId s = s\<lparr>animationFrameId := Some frameId\<rparr>"

definition ngAfterViewInit :: "nat \<Rightarrow> nat \<Rightarrow> nat \<Rightarrow> app_state \<Rightarrow> app_state" where
  "ngAfterViewInit width height frameId s =
     (if canvasRef s \<and> canvasContainerRef s then
        animate frameId (set_isViewInitialized (initThreeJs width height s))
      else s)"

definition onResize :: "nat \<Rightarrow> nat \<Rightarrow> app_state \<Rightarrow> app_state" where
  "onResize width height s =
     (if \<not> canvasContainerRef s \<or> camera s = None \<or> renderer s = None then s
      else if width = 0 \<or> height = 0 then s
      else s\<lparr>camera := map_option (\<lambda>c. c\<lparr>aspect := js_div width height,
                                            projection_aspect := js_div width height\<rparr>)
                           (camera s),
             renderer := map_option (\<lambda>r. r\<lparr>renderer_size := (width, height)\<rparr>) (renderer s)\<rparr>)"

text \<open>
  \<open>cancelAnimationFrame\<close> acts on the frame queue of the browser, which is not part of the
  state; \<open>renderer.dispose()\<close> is recorded in the renderer.
\<close>

definition ngOnDestroy :: "app_state \<Rightarrow> app_state" where
  "ngOnDestroy s =
     (let s1 = s\<lparr>renderer := map_option (\<lambda>r. r\<lparr>renderer_disposed := True\<rparr>) (renderer s)\<rparr>
      in if giraffe s1 \<noteq> None then removeGiraffe s1 else s1)"

text \<open>
  The destruction of the component by the framework: the hook \<open>ngOnDestroy\<close> runs and the
  effects of the component are destroyed.
\<close>

definition destroy :: "app_state \<Rightarrow> app_state" where
  "destroy s = (ngOnDestroy s)\<lparr>effects_destroyed := True\<rparr>"

subsection \<open>downloadModel\<close>

text \<open>
  \<open>GLTFExporter.parse\<close> belongs to the library and is a parameter \<open>parse\<close>: given the group
  and the option \<open>binary\<close> it ends by calling \<open>onDone\<close> with an \<open>ArrayBuffer\<close> or with a
  JSON object (here: its rendering by \<open>JSON.stringify(result, null, 2)\<close>), or by calling
  \<open>onError\<close>.
\<close>

datatype export_result = ArrayBuffer "8 word list" | JsonObject string

datatype parse_outcome = OnDone export_result | OnError string

definition save :: "blob \<Rightarrow> string \<Rightarrow> string \<Rightarrow> app_state \<Rightarrow> app_state" where
  "save b blob_type name s =
     s\<lparr>downloads := downloads s @ [\<lparr>filename = name, mime = blob_type, content = b\<rparr>]\<rparr>"

definition saveString :: "string \<Rightarrow> string \<Rightarrow> app_state \<Rightarrow> app_state" where
  "saveString text name s = save (Text text) ''text/plain'' name s"

definition saveArrayBuffer :: "8 word list \<Rightarrow> string \<Rightarrow> app_state \<Rightarrow> app_state" where
  "saveArrayBuffer buffer name s = save (Bytes buffer) ''application/octet-stream'' name s"

definition downloadModel ::
  "(giraffe_group \<Rightarrow> bool \<Rightarrow> parse_outcome) \<Rightarrow> app_state \<Rightarrow> app_state" where
  "downloadModel parse s =
     (case giraffe s of
        None \<Rightarrow> s\<lparr>console_errors := console_errors s @ [[''No giraffe model to download.'']]\<rparr>
      | Some (m, g) \<Rightarrow>
          (case parse g True of
             OnDone (ArrayBuffer result) \<Rightarrow> saveArrayBuffer result ''my-plush-giraffe.glb'' s
           | OnDone (JsonObject output) \<Rightarrow> saveString output ''my-plush-giraffe.gltf'' s
           | OnError error \<Rightarrow>
               s\<lparr>console_errors :=
                   console_errors s @ [[''An error happened during parsing'', error]]\<rparr>))"

subsection \<open>Runs of the component\<close>

text \<open>
  What can happen to the component, in any order: the life-cycle hooks, a change detection,
  an animation frame, a resize of the window, a click on the download button and the
  input events.
\<close>

datatype app_event =
    AfterViewInit nat nat nat
  | ChangeDetection
  | Destroy
  | Frame nat
  | Resize nat nat
  | Download
  | GiraffeNameChange string
  | NeckLengthChange real
  | LegLengthChange real
  | HornLengthChange real
  | HeadSizeChange real
  | GiraffeColorChange string
  | SpotColorChange string
  | AutoRotateChange bool

fun handle ::
  "(nat \<Rightarrow> real) \<Rightarrow> (giraffe_group \<Rightarrow> bool \<Rightarrow> parse_outcome) \<Rightarrow> app_event \<Rightarrow> app_state
     \<Rightarrow> app_state" where
  "handle rng parse (AfterViewInit w h f) s = ngAfterViewInit w h f s"
| "handle rng parse ChangeDetection s = changeDetection rng s"
| "handle rng parse Destroy s = destroy s"
| "handle rng parse (Frame f) s = animate f s"
| "handle rng parse (Resize w h) s = onResize w h s"
| "handle rng parse Download s = downloadModel parse s"
| "handle rng parse (GiraffeNameChange v) s = onGiraffeNameChange v s"
| "handle rng parse (NeckLengthChange v) s = onNeckLengthChange v s"
| "handle rng parse (LegLengthChange v) s = onLegLengthChange v s"
| "handle rng parse (HornLengthChange v) s = onHornLengthChange v s"
| "handle rng parse (HeadSizeChange v) s = onHeadSizeChange v s"
| "handle rng parse (GiraffeColorChange v) s = onGiraffeColorChange v s"
| "handle rng parse (SpotColorChange v) s = onSpotColorChange v s"
| "handle rng parse (AutoRotateChange v) s = onAutoRotateChange v s"

definition run ::
  "(nat \<Rightarrow> real) \<Rightarrow> (giraffe_group \<Rightarrow> bool \<Rightarrow> parse_outcome) \<Rightarrow> app_state \<Rightarrow> app_event list
     \<Rightarrow> app_state" where
  "run rng parse s evs = foldl (\<lambda>s e. handle rng parse e s) s evs"

subsection \<open>The invariant of the life cycle\<close>

text \<open>
  After the calls \<open>cs\<close>, with \<open>gi\<close> the value of the field \<open>giraffe\<close>: at most one model
  was allocated and at most one was in the scene all along; every resource still allocated
  and every model still in the scene belongs to the group the field refers to.
\<close>

definition lifecycle_inv :: "lib_call list \<Rightarrow> (nat \<times> giraffe_group) option \<Rightarrow> bool" where
  "lifecycle_inv cs gi \<longleftrightarrow>
     all_along at_most_one empty_world cs
     \<and> (case gi of
          None \<Rightarrow> allocated (replay empty_world cs) = []
                  \<and> scene_models (replay empty_world cs) = []
        | Some (m, g) \<Rightarrow>
            set (allocated (replay empty_world cs)) \<subseteq> set (resources_of m (length (children g)))
            \<and> set (scene_models (replay empty_world cs)) \<subseteq> {Model m})"

definition state_inv :: "app_state \<Rightarrow> bool" where
  "state_inv s \<longleftrightarrow> lifecycle_inv (calls s) (giraffe s)"

text \<open>
  A group with both mesh groups: four children (two eyes, the structural mesh, the pattern
  mesh), 10 structural and 20 pattern geometries. Every group the component holds is one.
\<close>

definition has_mesh_groups :: "giraffe_group \<Rightarrow> bool" where
  "has_mesh_groups g \<longleftrightarrow>
     length (children g) = 4 \<and> length (structural g) = 10 \<and> length (pattern g) = 20"

definition model_inv :: "app_state \<Rightarrow> bool" where
  "model_inv s \<longleftrightarrow> (case giraffe s of None \<Rightarrow> True | Some (m, g) \<Rightarrow> has_mesh_groups g)"

subsection \<open>Sample environments\<close>

text \<open>
  Three exporters: one that always fails, one that answers with an empty buffer, and one
  that, asked for the binary format, answers with a buffer of four bytes (the magic number
  of the container, \<open>glTF\<close>).
\<close>

definition failing_parse :: "giraffe_group \<Rightarrow> bool \<Rightarrow> parse_outcome" where
  "failing_parse g binary = OnError ''unsupported''"



text \<open>
  The state after the view is initialised in a container of 800 by 600 pixels, and the
  state after the first change detection has then run the effects.
\<close>

definition view_ready :: app_state where
  "view_ready = ngAfterViewInit 800 600 1 (initial_state True True)"

definition started :: app_state where
  "started = changeDetection (constant_random 0) view_ready"

section \<open>Facts about createGiraffe\<close>

lemma length_legs: "length (legs l) = 4"
  by (simp add: legs_def legPositions_def)

lemma length_bodySpotsZ: "length (bodySpotsZ rnd i ps) = length ps"
  by (induction rnd i ps rule: bodySpotsZ.induct) (simp_all add: Let_def)

lemma length_bodySpotsX: "length (bodySpotsX rnd i ps) = length ps"
  by (induction rnd i ps rule: bodySpotsX.induct) (simp_all add: Let_def)

lemma length_neckSpots: "length (neckSpots n rnd i ps) = length ps"
  by (induction n rnd i ps rule: neckSpots.induct) (simp_all add: Let_def)

lemma length_giraffeGeometries: "length (giraffeGeometries n l h) = 10"
  by (simp add: giraffeGeometries_def length_legs)

lemma length_spotGeometries: "length (spotGeometries n hl h rnd) = 20"
proof -
  have "length (spotGeometries n hl h rnd) =
          4 + length bodySpotPositionsZ + length bodySpotPositionsX + length neckSpotParams"
    by (simp add: spotGeometries_def length_bodySpotsZ length_bodySpotsX length_neckSpots)
  also have "\<dots> = 20"
    by (simp add: bodySpotPositionsZ_def bodySpotPositionsX_def neckSpotParams_def)
  finally show ?thesis .
qed

lemma children_createGiraffe:
  "children (createGiraffe n l hl h c sc rnd) =
     [eye1 n h, eye2 n h,
      shadowed_mesh (giraffeGeometries n l h) (createTexturedMaterial c),
      shadowed_mesh (spotGeometries n hl h rnd) (createTexturedMaterial sc)]"
proof -
  have "length (giraffeGeometries n l h) > 0" "length (spotGeometries n hl h rnd) > 0"
    by (simp_all only: length_giraffeGeometries length_spotGeometries)
  then show ?thesis
    unfolding createGiraffe_def Let_def by (simp del: length_greater_0_conv)
qed

lemma geometry_shadowed_mesh: "geometry (shadowed_mesh gs m) = gs"
  by (simp add: shadowed_mesh_def new_mesh_def mergeGeometries_def)

lemma structural_createGiraffe:
  "structural (createGiraffe n l hl h c sc rnd) = giraffeGeometries n l h"
  by (simp add: structural_def children_createGiraffe geometry_shadowed_mesh)

lemma pattern_createGiraffe:
  "pattern (createGiraffe n l hl h c sc rnd) = spotGeometries n hl h rnd"
  by (simp add: pattern_def children_createGiraffe geometry_shadowed_mesh)

lemma eyes_createGiraffe:
  "eyes (createGiraffe n l hl h c sc rnd) = [eye1 n h, eye2 n h]"
  by (simp add: eyes_def children_createGiraffe)

lemma group_position_createGiraffe:
  "group_position (createGiraffe n l hl h c sc rnd) = (0, l + bodyHeight / 2, 0)"
  by (simp add: createGiraffe_def Let_def)

lemma legs_of_createGiraffe:
  "legs_of (createGiraffe n l hl h c sc rnd) = legs l"
  by (simp add: legs_of_def structural_createGiraffe giraffeGeometries_def length_legs)

lemma neck_of_createGiraffe: "neck_of (createGiraffe n l hl h c sc rnd) = neckGeo n"
  by (simp add: neck_of_def structural_createGiraffe giraffeGeometries_def length_legs nth_append)

lemma head_of_createGiraffe: "head_of (createGiraffe n l hl h c sc rnd) = headGeo n h"
  by (simp add: head_of_def structural_createGiraffe giraffeGeometries_def length_legs nth_append)

lemma ears_of_createGiraffe:
  "ears_of (createGiraffe n l hl h c sc rnd) = [ear1Geo n h, ear2Geo n h]"
  by (simp add: ears_of_def structural_createGiraffe giraffeGeometries_def length_legs)

lemma body_of_createGiraffe: "body_of (createGiraffe n l hl h c sc rnd) = bodyGeo"
  by (simp add: body_of_def structural_createGiraffe giraffeGeometries_def)

lemma tail_of_createGiraffe: "tail_of (createGiraffe n l hl h c sc rnd) = tailGeo"
  by (simp add: tail_of_def structural_createGiraffe giraffeGeometries_def length_legs nth_append)

lemma tassel_of_createGiraffe: "tassel_of (createGiraffe n l hl h c sc rnd) = tasselGeo"
  by (simp add: tassel_of_def pattern_createGiraffe spotGeometries_def)

lemma snout_of_createGiraffe: "snout_of (createGiraffe n l hl h c sc rnd) = snoutGeo n h"
  by (simp add: snout_of_def pattern_createGiraffe spotGeometries_def)

lemma horns_of_createGiraffe:
  "horns_of (createGiraffe n l hl h c sc rnd) = [horn1Geo n hl h, horn2Geo n hl h]"
  by (simp add: horns_of_def pattern_createGiraffe spotGeometries_def)

lemma body_spots_of_createGiraffe:
  "body_spots_of (createGiraffe n l hl h c sc rnd) =
     bodySpotsZ rnd 0 bodySpotPositionsZ @ bodySpotsX rnd 12 bodySpotPositionsX"
proof -
  have "length (bodySpotsZ rnd 0 bodySpotPositionsZ) + length (bodySpotsX rnd 12 bodySpotPositionsX) = 12"
    by (simp add: length_bodySpotsZ length_bodySpotsX bodySpotPositionsZ_def bodySpotPositionsX_def)
  then show ?thesis
    by (simp add: body_spots_of_def pattern_createGiraffe spotGeometries_def)
qed

lemma neck_spots_of_createGiraffe:
  "neck_spots_of (createGiraffe n l hl h c sc rnd) = neckSpots n rnd 24 neckSpotParams"
proof -
  have "length (bodySpotsZ rnd 0 bodySpotPositionsZ) = 6" "length (bodySpotsX rnd 12 bodySpotPositionsX) = 6"
    by (simp_all add: length_bodySpotsZ length_bodySpotsX bodySpotPositionsZ_def bodySpotPositionsX_def)
  then show ?thesis
    by (simp add: neck_spots_of_def pattern_createGiraffe spotGeometries_def)
qed

lemma top_neckGeo: "top (neckGeo n) = (0, neckTopY n, neckBaseZ)"
  by (simp add: top_def vertex_at_def neckGeo_def translate_def new_geometry_def
      neckCenterY_def neckTopY_def)

lemma head_anchor_createGiraffe:
  "head_anchor (createGiraffe n l hl h c sc rnd) = (0, neckTopY n, headCenterZ)"
  by (simp add: head_anchor_def neck_of_createGiraffe top_neckGeo)

lemmas geo_unfold =
  geo_scaled_def scaled_about_def centre_def bottom_def vertex_at_def translate_def clone_def
  new_geometry_def vsub_def vscale_def box_of_def dim_w_def dim_h_def dim_d_def

lemma unit_random_constant: "unit_random (constant_random 0)"
  by (simp add: unit_random_def constant_random_def)

section \<open>The feet stand on the ground\<close>

lemma leg_cap_world:
  "leg \<in> set (legs l) \<Longrightarrow>
     vy (in_world (createGiraffe n l hl h c sc rnd) (vertex_at leg (a, - l / 2, b))) = 0"
  by (auto simp add: legs_def legPositions_def in_world_def group_position_createGiraffe
      vertex_at_def translate_def clone_def legGeo_def new_geometry_def legY_def
      bodyHeight_def vy_def)

lemma leg_bottom: "leg \<in> set (legs l) \<Longrightarrow> bottom leg = vertex_at leg (0, - l / 2, 0)"
  by (auto simp add: legs_def legPositions_def bottom_def translate_def clone_def legGeo_def
      new_geometry_def)

lemma map_all_zero: "(\<And>x. x \<in> set xs \<Longrightarrow> f x = (0::real)) \<Longrightarrow> map f xs = replicate (length xs) 0"
  by (induction xs) simp_all

text \<open>
  Claim C3. For neckLength 6, legLength 4, hornLength 0.8 and headSize 1, whatever the
  colours and the random numbers: the bottom of each of the four leg cylinders (the centre
  of its bottom cap, and every point \<open>(a, -4/2, b)\<close> of the plane of that cap), moved by the
  translation of the group, is at height 0; the vertical translation of the group is
  \<open>5.5 = 4 + bodyHeight / 2\<close>.
\<close>

theorem C3_feet_at_height_zero:
  "map (\<lambda>leg. vy (in_world (createGiraffe 6 4 0.8 1 c sc rnd) (bottom leg)))
       (legs_of (createGiraffe 6 4 0.8 1 c sc rnd)) = [0, 0, 0, 0]
   \<and> map (\<lambda>leg. vy (in_world (createGiraffe 6 4 0.8 1 c sc rnd) (vertex_at leg (a, - 4 / 2, b))))
       (legs_of (createGiraffe 6 4 0.8 1 c sc rnd)) = [0, 0, 0, 0]
   \<and> map kind (legs_of (createGiraffe 6 4 0.8 1 c sc rnd))
       = [CylinderGeometry 0.4 0.3 4, CylinderGeometry 0.4 0.3 4,
          CylinderGeometry 0.4 0.3 4, CylinderGeometry 0.4 0.3 4]
   \<and> vy (group_position (createGiraffe 6 4 0.8 1 c sc rnd)) = 5.5
   \<and> (5.5 :: real) = 4 + bodyHeight / 2"
proof -
  let ?g = "createGiraffe 6 4 0.8 1 c sc rnd"
  have four: "replicate (length (legs 4)) (0::real) = [0, 0, 0, 0]"
    by (simp add: length_legs numeral_eq_Suc)
  have "map (\<lambda>leg. vy (in_world ?g (vertex_at leg (a, - 4 / 2, b)))) (legs 4)
          = replicate (length (legs 4)) 0"
    by (rule map_all_zero) (rule leg_cap_world)
  then have caps: "map (\<lambda>leg. vy (in_world ?g (vertex_at leg (a, - 4 / 2, b)))) (legs_of ?g)
          = [0, 0, 0, 0]"
    by (simp only: four legs_of_createGiraffe)
  have "map (\<lambda>leg. vy (in_world ?g (bottom leg))) (legs 4) = replicate (length (legs 4)) 0"
  proof (rule map_all_zero)
    fix leg assume "leg \<in> set (legs 4)"
    then show "vy (in_world ?g (bottom leg)) = 0"
      using leg_cap_world [of leg 4 6 "0.8" 1 c sc rnd 0 0] by (simp only: leg_bottom)
  qed
  then have feet: "map (\<lambda>leg. vy (in_world ?g (bottom leg))) (legs_of ?g) = [0, 0, 0, 0]"
    by (simp only: four legs_of_createGiraffe)
  have kinds: "map kind (legs_of ?g)
       = [CylinderGeometry 0.4 0.3 4, CylinderGeometry 0.4 0.3 4,
          CylinderGeometry 0.4 0.3 4, CylinderGeometry 0.4 0.3 4]"
    by (simp add: legs_of_createGiraffe legs_def legPositions_def translate_def clone_def
        legGeo_def new_geometry_def)
  have pos: "vy (group_position ?g) = 5.5" "(5.5 :: real) = 4 + bodyHeight / 2"
    by (simp_all add: group_position_createGiraffe bodyHeight_def vy_def)
  from feet caps kinds pos show ?thesis by (intro conjI) assumption+
qed

text \<open>Claim C3 at the default colours, with \<open>Math.random\<close> always returning 0.\<close>

theorem C3_witness:
  "map (\<lambda>leg. vy (in_world
          (createGiraffe 6 4 0.8 1 ''#FFC300'' ''#8B4513'' (constant_random 0)) (bottom leg)))
       (legs_of (createGiraffe 6 4 0.8 1 ''#FFC300'' ''#8B4513'' (constant_random 0)))
     = [0, 0, 0, 0]
   \<and> group_position (createGiraffe 6 4 0.8 1 ''#FFC300'' ''#8B4513'' (constant_random 0))
     = (0, 5.5, 0)"
  using C3_feet_at_height_zero [of "''#FFC300''" "''#8B4513''" "constant_random 0" 0 0]
  by (simp add: group_position_createGiraffe)

section \<open>Counts of primitives, and what the random numbers reach\<close>

lemma baked_bodySpotsZ:
  "map baked (bodySpotsZ rnd i ps) = map (\<lambda>(x, y, z). [Translate x y z]) ps"
  by (induction rnd i ps rule: bodySpotsZ.induct)
    (simp_all add: Let_def translate_def new_geometry_def)

lemma baked_bodySpotsX:
  "map baked (bodySpotsX rnd i ps) = map (\<lambda>(x, y, z). [Translate x y z]) ps"
  by (induction rnd i ps rule: bodySpotsX.induct)
    (simp_all add: Let_def translate_def new_geometry_def)

lemma baked_neckSpots:
  "map baked (neckSpots n rnd i ps) =
     map (\<lambda>(p, angle). [RotateY angle,
            Translate (neckSpotRadius p * sin angle) (bodyTopY + p * n)
                      (neckBaseZ + neckSpotRadius p * cos angle)]) ps"
  by (induction n rnd i ps rule: neckSpots.induct)
    (simp_all add: Let_def translate_def rotateY_def new_geometry_def)

lemma baked_spotGeometries:
  "map baked (spotGeometries n hl h rnd) = map baked (spotGeometries n hl h rnd')"
  by (simp add: spotGeometries_def baked_bodySpotsZ baked_bodySpotsX baked_neckSpots)

lemma take4_spotGeometries:
  "take 4 (spotGeometries n hl h rnd) = take 4 (spotGeometries n hl h rnd')"
  by (simp add: spotGeometries_def)

text \<open>
  Claim C4. For all parameter values the structural list has 10 geometries and the pattern
  list has 20. Between two runs with the same parameters and different random numbers
  \<open>rnd\<close> and \<open>rnd'\<close> the structural list is the same, the first four entries of the pattern
  list (tail tuft, snout, horns) are the same, and every entry of the pattern list has the
  same baked transformations: only the constructor arguments of the spots vary.
\<close>

theorem C4_primitive_counts_constant:
  "length (structural (createGiraffe n l hl h c sc rnd)) = 10
   \<and> length (pattern (createGiraffe n l hl h c sc rnd)) = 20
   \<and> structural (createGiraffe n l hl h c sc rnd) = structural (createGiraffe n l hl h c sc rnd')
   \<and> take 4 (pattern (createGiraffe n l hl h c sc rnd))
       = take 4 (pattern (createGiraffe n l hl h c sc rnd'))
   \<and> map baked (pattern (createGiraffe n l hl h c sc rnd))
       = map baked (pattern (createGiraffe n l hl h c sc rnd'))"
  using baked_spotGeometries [of n hl h rnd rnd'] take4_spotGeometries [of n hl h rnd rnd']
  by (simp add: structural_createGiraffe pattern_createGiraffe length_giraffeGeometries
      length_spotGeometries)

text \<open>Claim C4 at two different parameter sets.\<close>

theorem C4_witness:
  "length (structural (createGiraffe 6 4 0.8 1 ''#FFC300'' ''#8B4513'' (constant_random 0))) = 10
   \<and> length (pattern (createGiraffe 6 4 0.8 1 ''#FFC300'' ''#8B4513'' (constant_random 0))) = 20
   \<and> length (structural (createGiraffe 9 2 1.5 3 ''#000000'' ''#FFFFFF'' (constant_random 0.5))) = 10
   \<and> length (pattern (createGiraffe 9 2 1.5 3 ''#000000'' ''#FFFFFF'' (constant_random 0.5))) = 20"
  using C4_primitive_counts_constant [of 6 4 "0.8" 1 "''#FFC300''" "''#8B4513''"
      "constant_random 0" "constant_random 0"]
    C4_primitive_counts_constant [of 9 2 "1.5" 3 "''#000000''" "''#FFFFFF''"
      "constant_random 0.5" "constant_random 0.5"]
  by blast

text \<open>
  Claim C10. The structural list is \<open>giraffeGeometries\<close> of the numeric parameters and the
  eyes are \<open>eye1\<close> and \<open>eye2\<close> of neck length and head size: neither mentions the random
  numbers. For the same parameters and colours and any two sequences of random numbers, the
  first three children of the group (the two eye meshes and the structural mesh, with their
  materials) and the position of the group are the same.
\<close>

theorem C10_structure_deterministic:
  "structural (createGiraffe n l hl h c sc rnd) = giraffeGeometries n l h
   \<and> eyes (createGiraffe n l hl h c sc rnd) = [eye1 n h, eye2 n h]
   \<and> take 3 (children (createGiraffe n l hl h c sc rnd))
       = take 3 (children (createGiraffe n l hl h c sc rnd'))
   \<and> group_position (createGiraffe n l hl h c sc rnd)
       = group_position (createGiraffe n l hl h c sc rnd')"
  by (simp add: structural_createGiraffe eyes_createGiraffe children_createGiraffe
      group_position_createGiraffe)

text \<open>
  Claim C10 at the default parameters, for random numbers always 0 and always 0.5: the
  first three children agree, and the pattern lists differ.
\<close>

theorem C10_witness:
  "take 3 (children (createGiraffe 6 4 0.8 1 ''#FFC300'' ''#8B4513'' (constant_random 0)))
     = take 3 (children (createGiraffe 6 4 0.8 1 ''#FFC300'' ''#8B4513'' (constant_random 0.5)))
   \<and> pattern (createGiraffe 6 4 0.8 1 ''#FFC300'' ''#8B4513'' (constant_random 0))
     \<noteq> pattern (createGiraffe 6 4 0.8 1 ''#FFC300'' ''#8B4513'' (constant_random 0.5))"
proof -
  have "pattern (createGiraffe 6 4 0.8 1 ''#FFC300'' ''#8B4513'' (constant_random 0)) ! 4
     \<noteq> pattern (createGiraffe 6 4 0.8 1 ''#FFC300'' ''#8B4513'' (constant_random 0.5)) ! 4"
    by (simp add: pattern_createGiraffe spotGeometries_def bodySpotPositionsZ_def Let_def
        translate_def new_geometry_def constant_random_def)
  then have "pattern (createGiraffe 6 4 0.8 1 ''#FFC300'' ''#8B4513'' (constant_random 0))
     \<noteq> pattern (createGiraffe 6 4 0.8 1 ''#FFC300'' ''#8B4513'' (constant_random 0.5))"
    by auto
  then show ?thesis
    using C10_structure_deterministic [of 6 4 "0.8" 1 "''#FFC300''" "''#8B4513''"
        "constant_random 0" "constant_random 0.5"]
    by blast
qed

section \<open>Scaling with the head size\<close>

lemma head_scaled:
  "h1 \<noteq> 0 \<Longrightarrow>
   geo_scaled (h2 / h1) (0, neckTopY n, headCenterZ) (headGeo n h1)
                        (0, neckTopY n, headCenterZ) (headGeo n h2)"
  by (simp add: geo_unfold headGeo_def headDim_def headCenterY_def)

lemma snout_scaled:
  "h1 \<noteq> 0 \<Longrightarrow>
   geo_scaled (h2 / h1) (0, neckTopY n, headCenterZ) (snoutGeo n h1)
                        (0, neckTopY n, headCenterZ) (snoutGeo n h2)"
  by (simp add: geo_unfold snoutGeo_def snoutDim_def headDim_def headCenterY_def field_simps)

lemma ear1_scaled:
  "h1 \<noteq> 0 \<Longrightarrow>
   geo_scaled (h2 / h1) (0, neckTopY n, headCenterZ) (ear1Geo n h1)
                        (0, neckTopY n, headCenterZ) (ear1Geo n h2)"
  by (simp add: geo_unfold ear1Geo_def earGeo_def earDim_def earX_def earY_def earZ_def
      headDim_def headCenterY_def field_simps)

lemma ear2_scaled:
  "h1 \<noteq> 0 \<Longrightarrow>
   geo_scaled (h2 / h1) (0, neckTopY n, headCenterZ) (ear2Geo n h1)
                        (0, neckTopY n, headCenterZ) (ear2Geo n h2)"
  by (simp add: geo_unfold ear2Geo_def earGeo_def earDim_def earX_def earY_def earZ_def
      headDim_def headCenterY_def field_simps)

lemma horn1_scaled:
  "h1 \<noteq> 0 \<Longrightarrow>
   horn_scaled (h2 / h1) (0, neckTopY n, headCenterZ) (horn1Geo n hl h1)
                         (0, neckTopY n, headCenterZ) (horn1Geo n hl h2)"
  by (simp add: horn_scaled_def geo_unfold horn1Geo_def hornGeo_def hornRadius_def hornX_def
      hornY_def hornZ_def headTopY_def headDim_def headCenterY_def field_simps)

lemma horn2_scaled:
  "h1 \<noteq> 0 \<Longrightarrow>
   horn_scaled (h2 / h1) (0, neckTopY n, headCenterZ) (horn2Geo n hl h1)
                         (0, neckTopY n, headCenterZ) (horn2Geo n hl h2)"
  by (simp add: horn_scaled_def geo_unfold horn2Geo_def hornGeo_def hornRadius_def hornX_def
      hornY_def hornZ_def headTopY_def headDim_def headCenterY_def field_simps)

lemma eye1_scaled:
  "h1 \<noteq> 0 \<Longrightarrow>
   eye_scaled (h2 / h1) (0, neckTopY n, headCenterZ) (eye1 n h1)
                        (0, neckTopY n, headCenterZ) (eye1 n h2)"
  by (simp add: eye_scaled_def geo_unfold eye1_def new_mesh_def eyeGeo_def eyeRadius_def
      eyeX_def eyeY_def eyeZ_def headDim_def headCenterY_def field_simps)

lemma eye2_scaled:
  "h1 \<noteq> 0 \<Longrightarrow>
   eye_scaled (h2 / h1) (0, neckTopY n, headCenterZ) (eye2 n h1)
                        (0, neckTopY n, headCenterZ) (eye2 n h2)"
  by (simp add: eye_scaled_def geo_unfold eye2_def eye1_def Let_def new_mesh_def eyeGeo_def
      eyeRadius_def eyeX_def eyeY_def eyeZ_def headDim_def headCenterY_def field_simps)

text \<open>
  Claim C1, as stated, fails. With neck length 6, leg length 4, horn length 0.8 and head
  sizes 1 and 2, measured from the top of the neck: the first horn is not scaled by 2 (its
  height is 0.8 in both models), and the head is not either (its centre stays at depth 2,
  half a unit in front of the neck axis at depth 1.5).
\<close>

theorem C1_counterexample:
  "\<not> geo_scaled (2 / 1)
        (top (neck_of (createGiraffe 6 4 0.8 1 ''#FFC300'' ''#8B4513'' (constant_random 0))))
        (hd (horns_of (createGiraffe 6 4 0.8 1 ''#FFC300'' ''#8B4513'' (constant_random 0))))
        (top (neck_of (createGiraffe 6 4 0.8 2 ''#FFC300'' ''#8B4513'' (constant_random 0))))
        (hd (horns_of (createGiraffe 6 4 0.8 2 ''#FFC300'' ''#8B4513'' (constant_random 0))))
   \<and> \<not> geo_scaled (2 / 1)
        (top (neck_of (createGiraffe 6 4 0.8 1 ''#FFC300'' ''#8B4513'' (constant_random 0))))
        (head_of (createGiraffe 6 4 0.8 1 ''#FFC300'' ''#8B4513'' (constant_random 0)))
        (top (neck_of (createGiraffe 6 4 0.8 2 ''#FFC300'' ''#8B4513'' (constant_random 0))))
        (head_of (createGiraffe 6 4 0.8 2 ''#FFC300'' ''#8B4513'' (constant_random 0)))"
  by (simp add: neck_of_createGiraffe horns_of_createGiraffe head_of_createGiraffe top_neckGeo
      geo_unfold horn1Geo_def hornGeo_def hornRadius_def hornX_def hornY_def hornZ_def
      headTopY_def headGeo_def headDim_def headCenterY_def headCenterZ_def neckTopY_def
      neckBaseZ_def bodyTopY_def bodyHeight_def)

text \<open>
  Claim C1, amended. For head sizes \<open>h1 \<noteq> 0\<close> and \<open>h2\<close>, all other parameters fixed, and
  \<open>k = h2 / h1\<close>: the lengths of head, snout, ears and eyes, and their positions seen from
  the point at the height of the neck top and at the fixed depth 2 of the head centre, are
  scaled by exactly \<open>k\<close>; so are the two radii of each horn and the position of its base
  seen from that point, while the height of each horn is the horn length in both models.
  Body, legs, tail, tail tuft and neck are the same in both models.
\<close>

theorem C1_head_scaling_amended:
  assumes "h1 \<noteq> 0"
  shows
    "let g1 = createGiraffe n l hl h1 c sc rnd1;
         g2 = createGiraffe n l hl h2 c sc rnd2;
         k = h2 / h1
     in geo_scaled k (head_anchor g1) (head_of g1) (head_anchor g2) (head_of g2)
      \<and> geo_scaled k (head_anchor g1) (snout_of g1) (head_anchor g2) (snout_of g2)
      \<and> list_all2 (\<lambda>p1 p2. geo_scaled k (head_anchor g1) p1 (head_anchor g2) p2)
           (ears_of g1) (ears_of g2)
      \<and> list_all2 (\<lambda>e1 e2. eye_scaled k (head_anchor g1) e1 (head_anchor g2) e2)
           (eyes g1) (eyes g2)
      \<and> list_all2 (\<lambda>p1 p2. horn_scaled k (head_anchor g1) p1 (head_anchor g2) p2)
           (horns_of g1) (horns_of g2)
      \<and> map (\<lambda>p. drop 2 (dims (kind p))) (horns_of g2) = [[hl], [hl]]
      \<and> body_of g2 = body_of g1 \<and> legs_of g2 = legs_of g1 \<and> tail_of g2 = tail_of g1
      \<and> tassel_of g2 = tassel_of g1 \<and> neck_of g2 = neck_of g1"
  unfolding Let_def
  using assms
  by (simp add: head_anchor_createGiraffe head_of_createGiraffe snout_of_createGiraffe
      ears_of_createGiraffe eyes_createGiraffe horns_of_createGiraffe body_of_createGiraffe
      legs_of_createGiraffe tail_of_createGiraffe tassel_of_createGiraffe neck_of_createGiraffe
      head_scaled snout_scaled ear1_scaled ear2_scaled eye1_scaled eye2_scaled horn1_scaled
      horn2_scaled)
    (simp add: horn1Geo_def horn2Geo_def hornGeo_def translate_def clone_def new_geometry_def)

text \<open>The amended claim C1 at neck length 6, leg length 4, horn length 0.8, head sizes 1 and 2.\<close>

theorem C1_witness:
  "(1::real) \<noteq> 0
   \<and> geo_scaled (2 / 1)
        (head_anchor (createGiraffe 6 4 0.8 1 ''#FFC300'' ''#8B4513'' (constant_random 0)))
        (head_of (createGiraffe 6 4 0.8 1 ''#FFC300'' ''#8B4513'' (constant_random 0)))
        (head_anchor (createGiraffe 6 4 0.8 2 ''#FFC300'' ''#8B4513'' (constant_random 0)))
        (head_of (createGiraffe 6 4 0.8 2 ''#FFC300'' ''#8B4513'' (constant_random 0)))
   \<and> map (\<lambda>p. drop 2 (dims (kind p)))
         (horns_of (createGiraffe 6 4 0.8 2 ''#FFC300'' ''#8B4513'' (constant_random 0)))
       = [[0.8], [0.8]]"
proof -
  have h: "(1::real) \<noteq> 0" by simp
  show ?thesis
    using h C1_head_scaling_amended [OF h, where ?h2.0 = 2 and n = 6 and l = 4 and hl = "0.8"
        and c = "''#FFC300''" and sc = "''#8B4513''" and ?rnd1.0 = "constant_random 0"
        and ?rnd2.0 = "constant_random 0"]
    unfolding Let_def by blast
qed

section \<open>The spots\<close>

lemma centre_bodySpotsZ: "map centre (bodySpotsZ rnd i ps) = ps"
  by (induction rnd i ps rule: bodySpotsZ.induct)
    (simp_all add: Let_def centre_def vertex_at_def translate_def new_geometry_def)

lemma centre_bodySpotsX: "map centre (bodySpotsX rnd i ps) = ps"
  by (induction rnd i ps rule: bodySpotsX.induct)
    (simp_all add: Let_def centre_def vertex_at_def translate_def new_geometry_def)

lemma unit_randomD:
  "unit_random rnd \<Longrightarrow> 0 \<le> rnd i" "unit_random rnd \<Longrightarrow> rnd i \<le> 1"
  by (simp_all add: unit_random_def less_imp_le)

lemma kinds_bodySpotsZ:
  "unit_random rnd \<Longrightarrow> list_all (\<lambda>g. z_spot_ok 0.5 0.9 (kind g)) (bodySpotsZ rnd i ps)"
proof (induction rnd i ps rule: bodySpotsZ.induct)
  case (1 rnd i)
  then show ?case by simp
next
  case (2 rnd i x y z ps)
  from 2(2) have "0 \<le> rnd i" "rnd i \<le> 1" "0 \<le> rnd (Suc i)" "rnd (Suc i) \<le> 1"
    by (simp_all add: unit_randomD)
  with 2 show ?case
    by (simp add: Let_def translate_def new_geometry_def in_range_def)
qed

lemma kinds_bodySpotsX:
  "unit_random rnd \<Longrightarrow> list_all (\<lambda>g. x_spot_ok 0.5 0.9 (kind g)) (bodySpotsX rnd i ps)"
proof (induction rnd i ps rule: bodySpotsX.induct)
  case (1 rnd i)
  then show ?case by simp
next
  case (2 rnd i x y z ps)
  from 2(2) have "0 \<le> rnd i" "rnd i \<le> 1" "0 \<le> rnd (Suc i)" "rnd (Suc i) \<le> 1"
    by (simp_all add: unit_randomD)
  with 2 show ?case
    by (simp add: Let_def translate_def new_geometry_def in_range_def)
qed

lemma kinds_neckSpots:
  "unit_random rnd \<Longrightarrow> list_all (\<lambda>g. z_spot_ok 0.4 0.7 (kind g)) (neckSpots n rnd i ps)"
proof (induction n rnd i ps rule: neckSpots.induct)
  case (1 n rnd i)
  then show ?case by simp
next
  case (2 n rnd i p angle ps)
  from 2(2) have "0 \<le> rnd i" "rnd i \<le> 1" "0 \<le> rnd (Suc i)" "rnd (Suc i) \<le> 1"
    by (simp_all add: unit_randomD)
  with 2 show ?case
    by (simp add: Let_def translate_def rotateY_def new_geometry_def in_range_def)
qed

lemma neckSpotRadius_lerp: "neckSpotRadius p = lerp neckRadiusBottom neckRadiusTop p"
  by (simp add: neckSpotRadius_def lerp_def algebra_simps)

lemma spots_at_map_centre:
  "length (spots_at axis v gs) = length (filter (\<lambda>p. axis p = v) (map centre gs))"
  by (simp add: spots_at_def filter_map comp_def)

lemma body_spot_centres:
  "map centre (body_spots_of (createGiraffe n l hl h c sc rnd)) =
     bodySpotPositionsZ @ bodySpotPositionsX"
  by (simp add: body_spots_of_createGiraffe centre_bodySpotsZ centre_bodySpotsX)

lemma body_spots_per_face:
  "length (spots_at vz 2.5 (body_spots_of (createGiraffe n l hl h c sc rnd))) = 3"
  "length (spots_at vz (-2.5) (body_spots_of (createGiraffe n l hl h c sc rnd))) = 3"
  "length (spots_at vx 1.5 (body_spots_of (createGiraffe n l hl h c sc rnd))) = 3"
  "length (spots_at vx (-1.5) (body_spots_of (createGiraffe n l hl h c sc rnd))) = 3"
  by (simp_all add: spots_at_map_centre body_spot_centres bodySpotPositionsZ_def
      bodySpotPositionsX_def vz_def vx_def)

text \<open>
  Claim C5, as stated, fails: no face of the body carries 6 spots. At the default
  parameters the number of body spots centred on the face \<open>z = 2.5\<close>, on the face
  \<open>z = -2.5\<close>, on the face \<open>x = 1.5\<close> and on the face \<open>x = -1.5\<close> is not 6 (it is 3).
\<close>

theorem C5_counterexample:
  "length (spots_at vz 2.5
     (body_spots_of (createGiraffe 6 4 0.8 1 ''#FFC300'' ''#8B4513'' (constant_random 0)))) \<noteq> 6
   \<and> length (spots_at vz (-2.5)
     (body_spots_of (createGiraffe 6 4 0.8 1 ''#FFC300'' ''#8B4513'' (constant_random 0)))) \<noteq> 6
   \<and> length (spots_at vx 1.5
     (body_spots_of (createGiraffe 6 4 0.8 1 ''#FFC300'' ''#8B4513'' (constant_random 0)))) \<noteq> 6
   \<and> length (spots_at vx (-1.5)
     (body_spots_of (createGiraffe 6 4 0.8 1 ''#FFC300'' ''#8B4513'' (constant_random 0)))) \<noteq> 6"
  by (simp only: body_spots_per_face) simp

lemma kinds_body_spots:
  "map kind (body_spots_of (createGiraffe n l hl h c sc rnd)) =
     [BoxGeometry (0.5 + rnd 0 * 0.4) (0.5 + rnd 1 * 0.4) 0.1,
      BoxGeometry (0.5 + rnd 2 * 0.4) (0.5 + rnd 3 * 0.4) 0.1,
      BoxGeometry (0.5 + rnd 4 * 0.4) (0.5 + rnd 5 * 0.4) 0.1,
      BoxGeometry (0.5 + rnd 6 * 0.4) (0.5 + rnd 7 * 0.4) 0.1,
      BoxGeometry (0.5 + rnd 8 * 0.4) (0.5 + rnd 9 * 0.4) 0.1,
      BoxGeometry (0.5 + rnd 10 * 0.4) (0.5 + rnd 11 * 0.4) 0.1,
      BoxGeometry 0.1 (0.5 + rnd 12 * 0.4) (0.5 + rnd 13 * 0.4),
      BoxGeometry 0.1 (0.5 + rnd 14 * 0.4) (0.5 + rnd 15 * 0.4),
      BoxGeometry 0.1 (0.5 + rnd 16 * 0.4) (0.5 + rnd 17 * 0.4),
      BoxGeometry 0.1 (0.5 + rnd 18 * 0.4) (0.5 + rnd 19 * 0.4),
      BoxGeometry 0.1 (0.5 + rnd 20 * 0.4) (0.5 + rnd 21 * 0.4),
      BoxGeometry 0.1 (0.5 + rnd 22 * 0.4) (0.5 + rnd 23 * 0.4)]"
  by (simp add: body_spots_of_createGiraffe bodySpotPositionsZ_def bodySpotPositionsX_def
      Let_def translate_def new_geometry_def) (simp add: eval_nat_numeral)

lemma kinds_neck_spots:
  "map kind (neck_spots_of (createGiraffe n l hl h c sc rnd)) =
     [BoxGeometry (0.4 + rnd 24 * 0.3) (0.4 + rnd 25 * 0.3) 0.1,
      BoxGeometry (0.4 + rnd 26 * 0.3) (0.4 + rnd 27 * 0.3) 0.1,
      BoxGeometry (0.4 + rnd 28 * 0.3) (0.4 + rnd 29 * 0.3) 0.1,
      BoxGeometry (0.4 + rnd 30 * 0.3) (0.4 + rnd 31 * 0.3) 0.1]"
  by (simp add: neck_spots_of_createGiraffe neckSpotParams_def Let_def translate_def
      rotateY_def new_geometry_def)

lemma unit_random_ramp: "unit_random ramp_random"
  by (simp add: unit_random_def ramp_random_def)

text \<open>
  Claim C5, amended. For all parameters, the 12 body spots are centred at the fixed
  catalogue of positions, 3 on each of the faces \<open>z = 2.5\<close>, \<open>z = -2.5\<close>, \<open>x = 1.5\<close> and
  \<open>x = -1.5\<close> of the body (6 on each pair of opposite faces). The sizes are randomized per
  instance: every spot takes two numbers of its own from \<open>Math.random\<close>, in the order of
  the catalogue. With \<open>rnd i\<close> the \<open>i\<close>-th number drawn, the \<open>j\<close>-th of the first six body
  spots is a box of width \<open>0.5 + rnd (2j) * 0.4\<close>, height \<open>0.5 + rnd (2j+1) * 0.4\<close> and
  depth 0.1; the \<open>j\<close>-th of the last six is a box of width 0.1, height
  \<open>0.5 + rnd (12+2j) * 0.4\<close> and depth \<open>0.5 + rnd (13+2j) * 0.4\<close>; the \<open>j\<close>-th of exactly 4
  neck spots is a box of width \<open>0.4 + rnd (24+2j) * 0.3\<close>, height
  \<open>0.4 + rnd (25+2j) * 0.3\<close> and depth 0.1. When \<open>Math.random\<close> returns numbers in
  \<open>[0, 1)\<close>, the two random lengths of a body spot lie in \<open>[0.5, 0.9]\<close> and those of a neck
  spot in \<open>[0.4, 0.7]\<close>. The neck spot for \<open>(p, angle)\<close> in
  \<open>(0.2, \<pi>/5), (0.45, -\<pi>/3), (0.7, \<pi>/1.5), (0.9, \<pi>)\<close> is rotated by \<open>angle\<close> about the vertical
  axis and then moved to height \<open>bodyTopY + p * neckLength\<close>, at the distance from the
  neck axis that interpolates linearly from the bottom radius 0.95 to the top radius 0.75,
  in the direction \<open>angle\<close>.
\<close>

theorem C5_spots_amended:
  assumes "unit_random rnd"
  shows
    "let g = createGiraffe n l hl h c sc rnd in
       map centre (body_spots_of g) =
         [(1, 1, 2.5), (-1.2, 0.5, 2.5), (0.5, -1, 2.5),
          (1, 1, -2.5), (-1.2, 0.5, -2.5), (0.5, -1, -2.5),
          (1.5, 1, 1.8), (1.5, -0.5, 0), (1.5, 0.8, -1.5),
          (-1.5, 1, 1.8), (-1.5, -0.5, 0), (-1.5, 0.8, -1.5)]
     \<and> length (spots_at vz 2.5 (body_spots_of g)) = 3
     \<and> length (spots_at vz (-2.5) (body_spots_of g)) = 3
     \<and> length (spots_at vx 1.5 (body_spots_of g)) = 3
     \<and> length (spots_at vx (-1.5) (body_spots_of g)) = 3
     \<and> map kind (body_spots_of g) =
         [BoxGeometry (0.5 + rnd 0 * 0.4) (0.5 + rnd 1 * 0.4) 0.1,
          BoxGeometry (0.5 + rnd 2 * 0.4) (0.5 + rnd 3 * 0.4) 0.1,
          BoxGeometry (0.5 + rnd 4 * 0.4) (0.5 + rnd 5 * 0.4) 0.1,
          BoxGeometry (0.5 + rnd 6 * 0.4) (0.5 + rnd 7 * 0.4) 0.1,
          BoxGeometry (0.5 + rnd 8 * 0.4) (0.5 + rnd 9 * 0.4) 0.1,
          BoxGeometry (0.5 + rnd 10 * 0.4) (0.5 + rnd 11 * 0.4) 0.1,
          BoxGeometry 0.1 (0.5 + rnd 12 * 0.4) (0.5 + rnd 13 * 0.4),
          BoxGeometry 0.1 (0.5 + rnd 14 * 0.4) (0.5 + rnd 15 * 0.4),
          BoxGeometry 0.1 (0.5 + rnd 16 * 0.4) (0.5 + rnd 17 * 0.4),
          BoxGeometry 0.1 (0.5 + rnd 18 * 0.4) (0.5 + rnd 19 * 0.4),
          BoxGeometry 0.1 (0.5 + rnd 20 * 0.4) (0.5 + rnd 21 * 0.4),
          BoxGeometry 0.1 (0.5 + rnd 22 * 0.4) (0.5 + rnd 23 * 0.4)]
     \<and> list_all (\<lambda>s. z_spot_ok 0.5 0.9 (kind s)) (take 6 (body_spots_of g))
     \<and> list_all (\<lambda>s. x_spot_ok 0.5 0.9 (kind s)) (drop 6 (body_spots_of g))
     \<and> length (neck_spots_of g) = 4
     \<and> map kind (neck_spots_of g) =
         [BoxGeometry (0.4 + rnd 24 * 0.3) (0.4 + rnd 25 * 0.3) 0.1,
          BoxGeometry (0.4 + rnd 26 * 0.3) (0.4 + rnd 27 * 0.3) 0.1,
          BoxGeometry (0.4 + rnd 28 * 0.3) (0.4 + rnd 29 * 0.3) 0.1,
          BoxGeometry (0.4 + rnd 30 * 0.3) (0.4 + rnd 31 * 0.3) 0.1]
     \<and> map baked (neck_spots_of g) =
         map (\<lambda>(p, angle).
                [RotateY angle,
                 Translate (lerp 0.95 0.75 p * sin angle) (bodyTopY + p * n)
                           (neckBaseZ + lerp 0.95 0.75 p * cos angle)])
             [(0.2, pi / 5), (0.45, - pi / 3), (0.7, pi / 1.5), (0.9, pi)]
     \<and> list_all (\<lambda>s. z_spot_ok 0.4 0.7 (kind s)) (neck_spots_of g)"
proof -
  let ?g = "createGiraffe n l hl h c sc rnd"
  have lz: "length (bodySpotsZ rnd 0 bodySpotPositionsZ) = 6"
    by (simp add: length_bodySpotsZ bodySpotPositionsZ_def)
  have c1: "map centre (body_spots_of ?g) =
         [(1, 1, 2.5), (-1.2, 0.5, 2.5), (0.5, -1, 2.5),
          (1, 1, -2.5), (-1.2, 0.5, -2.5), (0.5, -1, -2.5),
          (1.5, 1, 1.8), (1.5, -0.5, 0), (1.5, 0.8, -1.5),
          (-1.5, 1, 1.8), (-1.5, -0.5, 0), (-1.5, 0.8, -1.5)]"
    by (simp add: body_spot_centres bodySpotPositionsZ_def bodySpotPositionsX_def)
  have tk: "take 6 (body_spots_of ?g) = bodySpotsZ rnd 0 bodySpotPositionsZ"
    using lz by (simp add: body_spots_of_createGiraffe)
  have dr: "drop 6 (body_spots_of ?g) = bodySpotsX rnd 12 bodySpotPositionsX"
    using lz by (simp add: body_spots_of_createGiraffe)
  have c2: "list_all (\<lambda>s. z_spot_ok 0.5 0.9 (kind s)) (take 6 (body_spots_of ?g))"
    unfolding tk using assms by (rule kinds_bodySpotsZ)
  have c3: "list_all (\<lambda>s. x_spot_ok 0.5 0.9 (kind s)) (drop 6 (body_spots_of ?g))"
    unfolding dr using assms by (rule kinds_bodySpotsX)
  have c4: "length (neck_spots_of ?g) = 4"
    unfolding neck_spots_of_createGiraffe length_neckSpots by (simp add: neckSpotParams_def)
  have c5: "map baked (neck_spots_of ?g) =
         map (\<lambda>(p, angle).
                [RotateY angle,
                 Translate (lerp 0.95 0.75 p * sin angle) (bodyTopY + p * n)
                           (neckBaseZ + lerp 0.95 0.75 p * cos angle)])
             [(0.2, pi / 5), (0.45, - pi / 3), (0.7, pi / 1.5), (0.9, pi)]"
    unfolding neck_spots_of_createGiraffe baked_neckSpots neckSpotRadius_lerp
    by (simp add: neckSpotParams_def neckRadiusBottom_def neckRadiusTop_def)
  have c6: "list_all (\<lambda>s. z_spot_ok 0.4 0.7 (kind s)) (neck_spots_of ?g)"
    unfolding neck_spots_of_createGiraffe using assms by (rule kinds_neckSpots)
  show ?thesis
    unfolding Let_def
    using c1 c2 c3 c4 c5 c6 body_spots_per_face [of n l hl h c sc rnd]
      kinds_body_spots [of n l hl h c sc rnd] kinds_neck_spots [of n l hl h c sc rnd]
    by (intro conjI) assumption+
qed

text \<open>
  The amended claim C5 at the default parameters, with \<open>Math.random\<close> returning
  0, 1/32, 2/32, ...: the spots differ in size, each by its own two numbers.
\<close>

theorem C5_witness:
  "unit_random ramp_random
   \<and> map (dims \<circ> kind)
        (take 2 (body_spots_of (createGiraffe 6 4 0.8 1 ''#FFC300'' ''#8B4513'' ramp_random)))
       = [[0.5, 0.5125, 0.1], [0.525, 0.5375, 0.1]]
   \<and> map (dims \<circ> kind)
        (neck_spots_of (createGiraffe 6 4 0.8 1 ''#FFC300'' ''#8B4513'' ramp_random))
       = [[0.625, 0.634375, 0.1], [0.64375, 0.653125, 0.1],
          [0.6625, 0.671875, 0.1], [0.68125, 0.690625, 0.1]]
   \<and> list_all (\<lambda>s. z_spot_ok 0.4 0.7 (kind s))
        (neck_spots_of (createGiraffe 6 4 0.8 1 ''#FFC300'' ''#8B4513'' ramp_random))"
proof -
  let ?g = "createGiraffe 6 4 0.8 1 ''#FFC300'' ''#8B4513'' ramp_random"
  have h: "unit_random ramp_random" by (rule unit_random_ramp)
  from C5_spots_amended [OF h, of 6 4 "0.8" 1 "''#FFC300''" "''#8B4513''"]
  have b: "map kind (body_spots_of ?g) =
         [BoxGeometry (0.5 + ramp_random 0 * 0.4) (0.5 + ramp_random 1 * 0.4) 0.1,
          BoxGeometry (0.5 + ramp_random 2 * 0.4) (0.5 + ramp_random 3 * 0.4) 0.1,
          BoxGeometry (0.5 + ramp_random 4 * 0.4) (0.5 + ramp_random 5 * 0.4) 0.1,
          BoxGeometry (0.5 + ramp_random 6 * 0.4) (0.5 + ramp_random 7 * 0.4) 0.1,
          BoxGeometry (0.5 + ramp_random 8 * 0.4) (0.5 + ramp_random 9 * 0.4) 0.1,
          BoxGeometry (0.5 + ramp_random 10 * 0.4) (0.5 + ramp_random 11 * 0.4) 0.1,
          BoxGeometry 0.1 (0.5 + ramp_random 12 * 0.4) (0.5 + ramp_random 13 * 0.4),
          BoxGeometry 0.1 (0.5 + ramp_random 14 * 0.4) (0.5 + ramp_random 15 * 0.4),
          BoxGeometry 0.1 (0.5 + ramp_random 16 * 0.4) (0.5 + ramp_random 17 * 0.4),
          BoxGeometry 0.1 (0.5 + ramp_random 18 * 0.4) (0.5 + ramp_random 19 * 0.4),
          BoxGeometry 0.1 (0.5 + ramp_random 20 * 0.4) (0.5 + ramp_random 21 * 0.4),
          BoxGeometry 0.1 (0.5 + ramp_random 22 * 0.4) (0.5 + ramp_random 23 * 0.4)]"
    and k: "map kind (neck_spots_of ?g) =
         [BoxGeometry (0.4 + ramp_random 24 * 0.3) (0.4 + ramp_random 25 * 0.3) 0.1,
          BoxGeometry (0.4 + ramp_random 26 * 0.3) (0.4 + ramp_random 27 * 0.3) 0.1,
          BoxGeometry (0.4 + ramp_random 28 * 0.3) (0.4 + ramp_random 29 * 0.3) 0.1,
          BoxGeometry (0.4 + ramp_random 30 * 0.3) (0.4 + ramp_random 31 * 0.3) 0.1]"
    and r: "list_all (\<lambda>s. z_spot_ok 0.4 0.7 (kind s)) (neck_spots_of ?g)"
    unfolding Let_def by blast+
  have "map (dims \<circ> kind) (take 2 (body_spots_of ?g))
          = map dims (take 2 (map kind (body_spots_of ?g)))"
    by (simp add: take_map)
  also have "\<dots> = [[0.5, 0.5125, 0.1], [0.525, 0.5375, 0.1]]"
    unfolding b by (simp add: ramp_random_def)
  finally have b2: "map (dims \<circ> kind) (take 2 (body_spots_of ?g))
          = [[0.5, 0.5125, 0.1], [0.525, 0.5375, 0.1]]" .
  have "map (dims \<circ> kind) (neck_spots_of ?g) = map dims (map kind (neck_spots_of ?g))"
    by simp
  also have "\<dots> = [[0.625, 0.634375, 0.1], [0.64375, 0.653125, 0.1],
          [0.6625, 0.671875, 0.1], [0.68125, 0.690625, 0.1]]"
    unfolding k by (simp add: ramp_random_def)
  finally have k2: "map (dims \<circ> kind) (neck_spots_of ?g)
       = [[0.625, 0.634375, 0.1], [0.64375, 0.653125, 0.1],
          [0.6625, 0.671875, 0.1], [0.68125, 0.690625, 0.1]]" .
  from h b2 k2 r show ?thesis by (intro conjI) assumption+
qed

section \<open>The brightness factor\<close>












section \<open>Replaying calls\<close>

lemma replay_append: "replay w (cs @ ds) = replay (replay w cs) ds"
  by (simp add: replay_def)

lemma replay_Cons: "replay w (c # cs) = replay (effect c w) cs"
  by (simp add: replay_def)

lemma replay_Nil: "replay w [] = w"
  by (simp add: replay_def)

lemma all_along_append:
  "all_along P w (cs @ ds) \<longleftrightarrow> all_along P w cs \<and> all_along P (replay w cs) ds"
proof (induction cs arbitrary: w)
  case Nil
  then show ?case by (cases ds) (auto simp: replay_Nil)
next
  case (Cons c cs)
  then show ?case by (auto simp: replay_Cons)
qed

lemma all_along_end: "all_along P w cs \<Longrightarrow> P (replay w cs)"
  by (induction cs arbitrary: w) (auto simp: replay_Nil replay_Cons)

lemma filter_after_removeAll:
  "filter P (removeAll r xs) = filter (\<lambda>x. x \<noteq> r \<and> P x) xs"
  by (induction xs) auto

lemma allocated_replay_Dispose:
  "allocated (replay w (map Dispose rs)) = filter (\<lambda>r. r \<notin> set rs) (allocated w)"
proof (induction rs arbitrary: w)
  case Nil
  then show ?case by (simp add: replay_Nil)
next
  case (Cons r rs)
  have "filter (\<lambda>x. x \<notin> set rs) (removeAll r (allocated w))
        = filter (\<lambda>x. x \<noteq> r \<and> x \<notin> set rs) (allocated w)"
    by (rule filter_after_removeAll)
  then show ?case using Cons by (simp add: replay_Cons)
qed

lemma scene_replay_Dispose:
  "scene_children (replay w (map Dispose rs)) = scene_children w"
  by (induction rs arbitrary: w) (simp_all add: replay_Nil replay_Cons)

lemma length_remdups_map_mono:
  "set ys \<subseteq> set xs \<Longrightarrow> length (remdups (map f ys)) \<le> length (remdups (map f xs))"
proof -
  assume "set ys \<subseteq> set xs"
  then have "f ` set ys \<subseteq> f ` set xs" by blast
  then have "card (set (map f ys)) \<le> card (set (map f xs))"
    by (simp add: card_mono)
  then show ?thesis by (simp only: length_remdups_card_conv)
qed

lemma at_most_one_Dispose: "at_most_one w \<Longrightarrow> at_most_one (effect (Dispose r) w)"
proof -
  assume a: "at_most_one w"
  have "length (remdups (map owner (removeAll r (allocated w))))
          \<le> length (remdups (map owner (allocated w)))"
    by (rule length_remdups_map_mono) auto
  with a show ?thesis by (simp add: at_most_one_def live_models_def scene_models_def)
qed

lemma all_along_Dispose:
  "at_most_one w \<Longrightarrow> all_along at_most_one w (map Dispose rs)"
  by (induction rs arbitrary: w) (simp_all add: at_most_one_Dispose del: effect.simps)

lemma filter_removeAll: "filter P (removeAll x xs) = removeAll x (filter P xs)"
  by (induction xs) auto

lemma at_most_one_SceneRemove: "at_most_one w \<Longrightarrow> at_most_one (effect (SceneRemove x) w)"
proof -
  assume a: "at_most_one w"
  have l: "length (scene_models (effect (SceneRemove x) w)) \<le> length (scene_models w)"
    by (simp add: scene_models_def filter_removeAll)
  have m: "live_models (effect (SceneRemove x) w) = live_models w"
    by (simp add: live_models_def)
  show ?thesis
    using a l unfolding at_most_one_def m by (simp del: effect.simps)
qed

lemma owner_resources_of: "r \<in> set (resources_of m k) \<Longrightarrow> owner r = m"
  by (auto simp: resources_of_def)

lemma live_models_resources_of: "length (remdups (map owner (resources_of m k))) \<le> 1"
proof -
  have "set (map owner (resources_of m k)) \<subseteq> {m}"
    using owner_resources_of by auto
  then have "card (set (map owner (resources_of m k))) \<le> card {m}"
    by (intro card_mono) auto
  then show ?thesis by (simp only: length_remdups_card_conv) simp
qed

section \<open>The life cycle of the model\<close>

text \<open>The calls of \<open>removeGiraffe\<close>, of the creation of a model and of \<open>initThreeJs\<close> keep the invariant.\<close>

lemma removal_calls:
  assumes "lifecycle_inv cs (Some (m, g))"
  shows "lifecycle_inv (cs @ [SceneRemove (Model m)] @ dispose_traverse m g) None"
proof -
  let ?w = "replay empty_world cs"
  let ?w1 = "effect (SceneRemove (Model m)) ?w"
  let ?rs = "resources_of m (length (children g))"
  from assms have along: "all_along at_most_one empty_world cs"
    and alloc: "set (allocated ?w) \<subseteq> set ?rs"
    and scn: "set (scene_models ?w) \<subseteq> {Model m}"
    by (simp_all add: lifecycle_inv_def)
  have one: "at_most_one ?w" using along by (rule all_along_end)
  then have one1: "at_most_one ?w1" by (rule at_most_one_SceneRemove)
  have a1: "all_along at_most_one ?w ([SceneRemove (Model m)] @ dispose_traverse m g)"
    using one one1 by (simp add: dispose_traverse_def all_along_Dispose)
  have end_eq: "replay empty_world (cs @ [SceneRemove (Model m)] @ dispose_traverse m g)
                 = replay ?w1 (map Dispose ?rs)"
    by (simp add: replay_append replay_Cons replay_Nil dispose_traverse_def)
  have "allocated (replay ?w1 (map Dispose ?rs)) = filter (\<lambda>r. r \<notin> set ?rs) (allocated ?w)"
    by (simp add: allocated_replay_Dispose)
  also have "\<dots> = []" using alloc by (auto simp: filter_empty_conv)
  finally have no_alloc: "allocated (replay ?w1 (map Dispose ?rs)) = []" .
  have "scene_models (replay ?w1 (map Dispose ?rs)) = removeAll (Model m) (scene_models ?w)"
    by (simp add: scene_models_def scene_replay_Dispose filter_removeAll)
  also have "\<dots> = []" using scn by (auto simp: removeAll_filter_not_eq filter_empty_conv)
  finally have no_scene: "scene_models (replay ?w1 (map Dispose ?rs)) = []" .
  show ?thesis
    unfolding lifecycle_inv_def
    using along a1 no_alloc no_scene
    by (simp only: all_along_append end_eq option.case)
qed

lemma creation_calls:
  assumes "lifecycle_inv cs None"
  shows "lifecycle_inv (cs @ [NewModel m (length (children g))] @ [SceneAdd (Model m)])
           (Some (m, g))"
proof -
  let ?k = "length (children g)"
  let ?w = "replay empty_world cs"
  from assms have along: "all_along at_most_one empty_world cs"
    and alloc: "allocated ?w = []" and scn: "scene_models ?w = []"
    by (simp_all add: lifecycle_inv_def)
  have one: "at_most_one ?w" using along by (rule all_along_end)
  have scn': "filter is_model (scene_children ?w) = []"
    using scn by (simp add: scene_models_def)
  have "Model m \<notin> set (scene_children ?w)"
    using scn' by (auto simp: filter_empty_conv)
  then have rm: "removeAll (Model m) (scene_children ?w) = scene_children ?w"
    by (rule removeAll_id)
  have one1: "at_most_one (effect (NewModel m ?k) ?w)"
    using alloc scn live_models_resources_of [of m ?k]
    by (simp add: at_most_one_def live_models_def scene_models_def)
  have one2: "at_most_one (effect (SceneAdd (Model m)) (effect (NewModel m ?k) ?w))"
    using alloc scn' rm live_models_resources_of [of m ?k]
    by (simp add: at_most_one_def live_models_def scene_models_def)
  have a1: "all_along at_most_one ?w ([NewModel m ?k] @ [SceneAdd (Model m)])"
    using one one1 one2 by simp
  have fin: "replay empty_world (cs @ [NewModel m ?k] @ [SceneAdd (Model m)])
              = effect (SceneAdd (Model m)) (effect (NewModel m ?k) ?w)"
    by (simp add: replay_append replay_Cons replay_Nil)
  have r1: "set (allocated (effect (SceneAdd (Model m)) (effect (NewModel m ?k) ?w)))
              \<subseteq> set (resources_of m ?k)"
    using alloc by simp
  have r2: "set (scene_models (effect (SceneAdd (Model m)) (effect (NewModel m ?k) ?w)))
              \<subseteq> {Model m}"
    using scn' rm by (simp add: scene_models_def)
  show ?thesis
    unfolding lifecycle_inv_def
    using along a1 r1 r2
    by (simp only: all_along_append fin option.case prod.case simp_thms)
qed

lemma init_calls:
  assumes "lifecycle_inv cs gi"
  shows "lifecycle_inv (cs @ [NewScene, SceneAdd AmbientLight, SceneAdd DirectionalLight]) gi"
proof -
  let ?w = "replay empty_world cs"
  let ?ds = "[NewScene, SceneAdd AmbientLight, SceneAdd DirectionalLight]"
  from assms have along: "all_along at_most_one empty_world cs"
    by (simp add: lifecycle_inv_def)
  then have one: "at_most_one ?w" by (rule all_along_end)
  have a1: "all_along at_most_one ?w ?ds"
    using one by (simp add: at_most_one_def live_models_def scene_models_def)
  have al: "allocated (replay ?w ?ds) = allocated ?w"
    by (simp add: replay_Cons replay_Nil)
  have sc: "scene_models (replay ?w ?ds) = []"
    by (simp add: replay_Cons replay_Nil scene_models_def)
  have rest: "(case gi of
          None \<Rightarrow> allocated (replay ?w ?ds) = [] \<and> scene_models (replay ?w ?ds) = []
        | Some (m, g) \<Rightarrow>
            set (allocated (replay ?w ?ds)) \<subseteq> set (resources_of m (length (children g)))
            \<and> set (scene_models (replay ?w ?ds)) \<subseteq> {Model m})"
    using assms unfolding al sc lifecycle_inv_def by (auto split: option.splits)
  show ?thesis
    unfolding lifecycle_inv_def all_along_append replay_append
    using along a1 rest by simp
qed

lemma lifecycle_inv_initial: "lifecycle_inv [] None"
  by (simp add: lifecycle_inv_def replay_Nil empty_world_def at_most_one_def live_models_def
      scene_models_def)

lemma removal_calls_Cons:
  "lifecycle_inv cs (Some (m, g)) \<Longrightarrow>
     lifecycle_inv (cs @ SceneRemove (Model m) # dispose_traverse m g) None"
  using removal_calls [of cs m g] by simp

lemma creation_calls_Cons:
  "lifecycle_inv cs None \<Longrightarrow>
     lifecycle_inv (cs @ [NewModel m (length (children g)), SceneAdd (Model m)]) (Some (m, g))"
  using creation_calls [of cs m g] by simp

lemma removeGiraffe_inv: "state_inv s \<Longrightarrow> state_inv (removeGiraffe s)"
  by (auto simp: state_inv_def removeGiraffe_def removal_calls_Cons split: option.splits)

lemma giraffe_removeGiraffe: "giraffe (removeGiraffe s) = None"
  by (simp add: removeGiraffe_def split: option.splits)

lemma redrawGiraffe_inv: "state_inv s \<Longrightarrow> state_inv (redrawGiraffe rng s)"
proof -
  assume "state_inv s"
  then have "state_inv (removeGiraffe s)" by (rule removeGiraffe_inv)
  then have "lifecycle_inv (calls (removeGiraffe s)) None"
    by (simp add: state_inv_def giraffe_removeGiraffe)
  then show ?thesis
    by (simp add: state_inv_def redrawGiraffe_def Let_def creation_calls_Cons)
qed

lemma redraw_effect_inv: "state_inv s \<Longrightarrow> state_inv (redraw_effect rng s)"
  by (simp add: redraw_effect_def redrawGiraffe_inv)

lemma state_inv_cong:
  "calls t = calls s \<Longrightarrow> giraffe t = giraffe s \<Longrightarrow> state_inv s \<Longrightarrow> state_inv t"
  by (simp add: state_inv_def)

lemma autoRotate_effect_inv: "state_inv s \<Longrightarrow> state_inv (autoRotate_effect s)"
  by (rule state_inv_cong [of _ s]) (simp_all add: autoRotate_effect_def)

lemma initThreeJs_inv: "state_inv s \<Longrightarrow> state_inv (initThreeJs w h s)"
  by (simp add: state_inv_def initThreeJs_def init_calls)

lemma animate_inv: "state_inv s \<Longrightarrow> state_inv (animate f s)"
  by (simp add: state_inv_def animate_def)

lemma run_redraw_effect_inv: "state_inv s \<Longrightarrow> state_inv (run_redraw_effect rng s)"
  by (rule state_inv_cong [of _ "redraw_effect rng s"])
    (simp_all add: run_redraw_effect_def redraw_effect_inv)

lemma run_autoRotate_effect_inv: "state_inv s \<Longrightarrow> state_inv (run_autoRotate_effect s)"
  by (rule state_inv_cong [of _ "autoRotate_effect s"])
    (simp_all add: run_autoRotate_effect_def autoRotate_effect_inv)

lemma changeDetection_inv: "state_inv s \<Longrightarrow> state_inv (changeDetection rng s)"
  by (simp add: changeDetection_def Let_def run_redraw_effect_inv run_autoRotate_effect_inv)

lemma notify_inv:
  "state_inv s \<Longrightarrow> state_inv (notify_redraw s)"
  "state_inv s \<Longrightarrow> state_inv (notify_autoRotate s)"
  by (simp_all add: state_inv_def notify_redraw_def notify_autoRotate_def)

lemma set_isViewInitialized_inv: "state_inv s \<Longrightarrow> state_inv (set_isViewInitialized s)"
  by (simp add: state_inv_def set_isViewInitialized_def)

lemma ngAfterViewInit_inv: "state_inv s \<Longrightarrow> state_inv (ngAfterViewInit w h f s)"
  by (simp add: ngAfterViewInit_def animate_inv set_isViewInitialized_inv initThreeJs_inv)

lemma ngOnDestroy_inv: "state_inv s \<Longrightarrow> state_inv (ngOnDestroy s)"
proof -
  assume a: "state_inv s"
  let ?s1 = "s\<lparr>renderer := map_option (\<lambda>r. r\<lparr>renderer_disposed := True\<rparr>) (renderer s)\<rparr>"
  have "state_inv ?s1" using a by (simp add: state_inv_def)
  then show ?thesis
    by (simp add: ngOnDestroy_def Let_def removeGiraffe_inv del: not_None_eq)
qed

lemma destroy_inv: "state_inv s \<Longrightarrow> state_inv (destroy s)"
  by (rule state_inv_cong [of _ "ngOnDestroy s"]) (simp_all add: destroy_def ngOnDestroy_inv)

lemma onResize_inv: "state_inv s \<Longrightarrow> state_inv (onResize w h s)"
  by (simp add: state_inv_def onResize_def)

lemma downloadModel_inv: "state_inv s \<Longrightarrow> state_inv (downloadModel parse s)"
  by (auto simp add: state_inv_def downloadModel_def saveArrayBuffer_def saveString_def save_def
      split: option.splits parse_outcome.splits export_result.splits)

lemma set_param_inv:
  "state_inv s \<Longrightarrow> state_inv (s\<lparr>neckLength := v\<rparr>)"
  "state_inv s \<Longrightarrow> state_inv (s\<lparr>legLength := v\<rparr>)"
  "state_inv s \<Longrightarrow> state_inv (s\<lparr>hornLength := v\<rparr>)"
  "state_inv s \<Longrightarrow> state_inv (s\<lparr>headSize := v\<rparr>)"
  "state_inv s \<Longrightarrow> state_inv (s\<lparr>giraffeColor := c\<rparr>)"
  "state_inv s \<Longrightarrow> state_inv (s\<lparr>spotColor := c\<rparr>)"
  "state_inv s \<Longrightarrow> state_inv (s\<lparr>autoRotate := b\<rparr>)"
  "state_inv s \<Longrightarrow> state_inv (s\<lparr>giraffeName := c\<rparr>)"
  by (simp_all add: state_inv_def)

lemma handle_inv: "state_inv s \<Longrightarrow> state_inv (handle rng parse e s)"
  by (cases e)
    (simp_all add: ngAfterViewInit_inv changeDetection_inv destroy_inv animate_inv onResize_inv
      downloadModel_inv onGiraffeNameChange_def onNeckLengthChange_def onLegLengthChange_def
      onHornLengthChange_def onHeadSizeChange_def onGiraffeColorChange_def
      onSpotColorChange_def onAutoRotateChange_def notify_inv set_param_inv)

lemma run_inv: "state_inv s \<Longrightarrow> state_inv (run rng parse s evs)"
  unfolding run_def by (induction evs arbitrary: s) (simp_all add: handle_inv)

lemma initial_state_inv: "state_inv (initial_state a b)"
  by (simp add: state_inv_def initial_state_def lifecycle_inv_initial)

lemma calls_redrawGiraffe:
  "calls (redrawGiraffe rng s) =
     calls (removeGiraffe s)
     @ [NewModel (models_created s) 4, SceneAdd (Model (models_created s))]"
  by (simp add: redrawGiraffe_def Let_def children_createGiraffe removeGiraffe_def
      split: option.splits)

lemma params_removeGiraffe:
  "neckLength (removeGiraffe s) = neckLength s" "legLength (removeGiraffe s) = legLength s"
  "hornLength (removeGiraffe s) = hornLength s" "headSize (removeGiraffe s) = headSize s"
  "giraffeColor (removeGiraffe s) = giraffeColor s" "spotColor (removeGiraffe s) = spotColor s"
  "models_created (removeGiraffe s) = models_created s"
  "random_calls (removeGiraffe s) = random_calls s"
  by (simp_all add: removeGiraffe_def split: option.splits)

lemma fields_removeGiraffe:
  "isViewInitialized (removeGiraffe s) = isViewInitialized s"
  "canvasContainerRef (removeGiraffe s) = canvasContainerRef s"
  "camera (removeGiraffe s) = camera s"
  "renderer (removeGiraffe s) = renderer s"
  "console_errors (removeGiraffe s) = console_errors s"
  "downloads (removeGiraffe s) = downloads s"
  "effects_destroyed (removeGiraffe s) = effects_destroyed s"
  "redraw_dirty (removeGiraffe s) = redraw_dirty s"
  "redraw_reads_model (removeGiraffe s) = redraw_reads_model s"
  "autoRotate_dirty (removeGiraffe s) = autoRotate_dirty s"
  "autoRotate_reads (removeGiraffe s) = autoRotate_reads s"
  "autoRotate (removeGiraffe s) = autoRotate s"
  by (simp_all add: removeGiraffe_def split: option.splits)

lemma fields_redrawGiraffe:
  "isViewInitialized (redrawGiraffe rng s) = isViewInitialized s"
  "canvasContainerRef (redrawGiraffe rng s) = canvasContainerRef s"
  "camera (redrawGiraffe rng s) = camera s"
  "renderer (redrawGiraffe rng s) = renderer s"
  "neckLength (redrawGiraffe rng s) = neckLength s"
  "legLength (redrawGiraffe rng s) = legLength s"
  "hornLength (redrawGiraffe rng s) = hornLength s"
  "headSize (redrawGiraffe rng s) = headSize s"
  "giraffeColor (redrawGiraffe rng s) = giraffeColor s"
  "spotColor (redrawGiraffe rng s) = spotColor s"
  "models_created (redrawGiraffe rng s) = Suc (models_created s)"
  "random_calls (redrawGiraffe rng s) = random_calls s + 32"
  "console_errors (redrawGiraffe rng s) = console_errors s"
  "downloads (redrawGiraffe rng s) = downloads s"
  "effects_destroyed (redrawGiraffe rng s) = effects_destroyed s"
  "redraw_dirty (redrawGiraffe rng s) = redraw_dirty s"
  "redraw_reads_model (redrawGiraffe rng s) = redraw_reads_model s"
  "autoRotate_dirty (redrawGiraffe rng s) = autoRotate_dirty s"
  "autoRotate_reads (redrawGiraffe rng s) = autoRotate_reads s"
  "autoRotate (redrawGiraffe rng s) = autoRotate s"
  "giraffe (redrawGiraffe rng s) =
     Some (models_created s,
           createGiraffe (neckLength s) (legLength s) (hornLength s) (headSize s)
             (giraffeColor s) (spotColor s) (\<lambda>i. rng (random_calls s + i)))"
  by (simp_all add: redrawGiraffe_def Let_def params_removeGiraffe fields_removeGiraffe)

text \<open>A change detection with the first effect dirty, the view initialised, the component alive.\<close>

lemma changeDetection_redraws:
  assumes "isViewInitialized s" "\<not> effects_destroyed s" "redraw_dirty s"
  shows
    "giraffe (changeDetection rng s) =
       Some (models_created s,
             createGiraffe (neckLength s) (legLength s) (hornLength s) (headSize s)
               (giraffeColor s) (spotColor s) (\<lambda>i. rng (random_calls s + i)))"
    "calls (changeDetection rng s) = calls (redrawGiraffe rng s)"
    "models_created (changeDetection rng s) = Suc (models_created s)"
    "random_calls (changeDetection rng s) = random_calls s + 32"
    "redraw_reads_model (changeDetection rng s)"
    "\<not> redraw_dirty (changeDetection rng s)"
  using assms
  by (simp_all add: changeDetection_def Let_def run_redraw_effect_def run_autoRotate_effect_def
      redraw_effect_def autoRotate_effect_def fields_redrawGiraffe)

lemma fields_changeDetection:
  "neckLength (changeDetection rng s) = neckLength s"
  "legLength (changeDetection rng s) = legLength s"
  "hornLength (changeDetection rng s) = hornLength s"
  "headSize (changeDetection rng s) = headSize s"
  "giraffeColor (changeDetection rng s) = giraffeColor s"
  "spotColor (changeDetection rng s) = spotColor s"
  "isViewInitialized (changeDetection rng s) = isViewInitialized s"
  "effects_destroyed (changeDetection rng s) = effects_destroyed s"
  "canvasContainerRef (changeDetection rng s) = canvasContainerRef s"
  "camera (changeDetection rng s) = camera s"
  "renderer (changeDetection rng s) = renderer s"
  "console_errors (changeDetection rng s) = console_errors s"
  "downloads (changeDetection rng s) = downloads s"
  by (simp_all add: changeDetection_def Let_def run_redraw_effect_def run_autoRotate_effect_def
      redraw_effect_def autoRotate_effect_def fields_redrawGiraffe)

lemma fields_notify_redraw:
  "neckLength (notify_redraw s) = neckLength s" "legLength (notify_redraw s) = legLength s"
  "hornLength (notify_redraw s) = hornLength s" "headSize (notify_redraw s) = headSize s"
  "giraffeColor (notify_redraw s) = giraffeColor s" "spotColor (notify_redraw s) = spotColor s"
  "isViewInitialized (notify_redraw s) = isViewInitialized s"
  "effects_destroyed (notify_redraw s) = effects_destroyed s"
  "models_created (notify_redraw s) = models_created s"
  "random_calls (notify_redraw s) = random_calls s"
  "giraffe (notify_redraw s) = giraffe s" "calls (notify_redraw s) = calls s"
  "redraw_dirty (notify_redraw s) = (redraw_dirty s \<or> redraw_reads_model s)"
  by (simp_all add: notify_redraw_def)

lemma calls_removeGiraffe_Some:
  "giraffe s = Some (m, g) \<Longrightarrow>
     calls (removeGiraffe s) = calls s @ SceneRemove (Model m) # dispose_traverse m g"
  by (simp add: removeGiraffe_def)

lemma calls_removeGiraffe_None: "giraffe s = None \<Longrightarrow> calls (removeGiraffe s) = calls s"
  by (simp add: removeGiraffe_def)

lemma dispose_traverse_createGiraffe:
  "dispose_traverse m (createGiraffe n l hl h c sc rnd) =
     [Dispose (GeometryOf m 0), Dispose (MaterialOf m 0),
      Dispose (GeometryOf m 1), Dispose (MaterialOf m 1),
      Dispose (GeometryOf m 2), Dispose (MaterialOf m 2),
      Dispose (GeometryOf m 3), Dispose (MaterialOf m 3)]"
proof -
  have "[0..<4] = [0, 1, 2, Suc 2]" by (simp add: upt_rec numeral_eq_Suc)
  then show ?thesis
    by (simp add: dispose_traverse_def children_createGiraffe resources_of_def)
qed

lemma after_init_fields:
  "isViewInitialized view_ready"
  "\<not> effects_destroyed view_ready"
  "redraw_dirty view_ready"
  "giraffe view_ready = None"
  "calls view_ready =
     [NewScene, SceneAdd AmbientLight, SceneAdd DirectionalLight]"
  "canvasContainerRef view_ready"
  "camera view_ready =
     Some \<lparr>aspect = Some (800 / 600), projection_aspect = Some (800 / 600)\<rparr>"
  "renderer view_ready =
     Some \<lparr>renderer_size = (800, 600), renderer_disposed = False\<rparr>"
  "neckLength view_ready = 6"
  "legLength view_ready = 4"
  "hornLength view_ready = 0.8"
  "headSize view_ready = 1"
  "giraffeColor view_ready = ''#FFC300''"
  "spotColor view_ready = ''#8B4513''"
  "models_created view_ready = 0"
  "random_calls view_ready = 0"
  "console_errors view_ready = []"
  "downloads view_ready = []"
  by (simp_all add: view_ready_def ngAfterViewInit_def initThreeJs_def animate_def
      set_isViewInitialized_def initial_state_def js_div_def)

lemma started_fields:
  "isViewInitialized started" "\<not> effects_destroyed started" "redraw_reads_model started"
  "\<not> redraw_dirty started" "canvasContainerRef started"
  "camera started = Some \<lparr>aspect = Some (800 / 600), projection_aspect = Some (800 / 600)\<rparr>"
  "renderer started = Some \<lparr>renderer_size = (800, 600), renderer_disposed = False\<rparr>"
  "neckLength started = 6" "legLength started = 4" "hornLength started = 0.8"
  "headSize started = 1" "giraffeColor started = ''#FFC300''" "spotColor started = ''#8B4513''"
  "models_created started = 1" "random_calls started = 32"
  "console_errors started = []" "downloads started = []"
  unfolding started_def
  by (simp_all add: fields_changeDetection changeDetection_redraws after_init_fields)

lemma started_giraffe:
  "giraffe started =
     Some (0, createGiraffe 6 4 0.8 1 ''#FFC300'' ''#8B4513'' (\<lambda>i. constant_random 0 i))"
  unfolding started_def
  by (simp add: changeDetection_redraws after_init_fields)

lemma started_calls:
  "calls started =
     [NewScene, SceneAdd AmbientLight, SceneAdd DirectionalLight, NewModel 0 4,
      SceneAdd (Model 0)]"
  unfolding started_def
  by (simp add: changeDetection_redraws after_init_fields calls_redrawGiraffe
      calls_removeGiraffe_None)

text \<open>
  Claim C2. After any sequence of events of the component, starting from its initial
  state: before and after every call made on the rendering library so far, at most one
  model had resources allocated and at most one model was a child of the scene. In the
  state reached, \<open>removeGiraffe\<close> leaves no resource allocated and no model in the scene, and
  the calls of \<open>redrawGiraffe\<close> are the calls of \<open>removeGiraffe\<close> followed by the creation of
  the new model (with 4 meshes) and its addition to the scene: the release comes before
  the creation.
\<close>

theorem C2_at_most_one_model:
  "all_along at_most_one empty_world (calls (run rng parse (initial_state a b) evs))
   \<and> allocated (replay empty_world
        (calls (removeGiraffe (run rng parse (initial_state a b) evs)))) = []
   \<and> scene_models (replay empty_world
        (calls (removeGiraffe (run rng parse (initial_state a b) evs)))) = []
   \<and> calls (redrawGiraffe rng (run rng parse (initial_state a b) evs)) =
       calls (removeGiraffe (run rng parse (initial_state a b) evs))
       @ [NewModel (models_created (run rng parse (initial_state a b) evs)) 4,
          SceneAdd (Model (models_created (run rng parse (initial_state a b) evs)))]"
proof -
  let ?s = "run rng parse (initial_state a b) evs"
  have inv: "state_inv ?s" by (rule run_inv) (rule initial_state_inv)
  then have "state_inv (removeGiraffe ?s)" by (rule removeGiraffe_inv)
  then have r: "lifecycle_inv (calls (removeGiraffe ?s)) None"
    by (simp add: state_inv_def giraffe_removeGiraffe)
  show ?thesis
    using inv r by (simp add: state_inv_def lifecycle_inv_def calls_redrawGiraffe)
qed

text \<open>
  Claim C2 on the run that initialises the view, lets the change detection run, changes
  the neck length to 7 and lets the change detection run again, with the calls it makes.
\<close>

theorem C2_witness:
  "all_along at_most_one empty_world
     (calls (run (constant_random 0) failing_parse (initial_state True True)
        [AfterViewInit 800 600 1, ChangeDetection, NeckLengthChange 7, ChangeDetection]))
   \<and> calls (run (constant_random 0) failing_parse (initial_state True True)
        [AfterViewInit 800 600 1, ChangeDetection, NeckLengthChange 7, ChangeDetection]) =
       [NewScene, SceneAdd AmbientLight, SceneAdd DirectionalLight,
        NewModel 0 4, SceneAdd (Model 0),
        SceneRemove (Model 0),
        Dispose (GeometryOf 0 0), Dispose (MaterialOf 0 0),
        Dispose (GeometryOf 0 1), Dispose (MaterialOf 0 1),
        Dispose (GeometryOf 0 2), Dispose (MaterialOf 0 2),
        Dispose (GeometryOf 0 3), Dispose (MaterialOf 0 3),
        NewModel 1 4, SceneAdd (Model 1)]"
proof -
  let ?s = "onNeckLengthChange 7 started"
  have r: "run (constant_random 0) failing_parse (initial_state True True)
        [AfterViewInit 800 600 1, ChangeDetection, NeckLengthChange 7, ChangeDetection]
        = changeDetection (constant_random 0) ?s"
    unfolding run_def started_def view_ready_def by (simp only: foldl.simps handle.simps)
  have s: "?s = notify_redraw (started\<lparr>neckLength := 7\<rparr>)"
    by (simp add: onNeckLengthChange_def started_fields)
  have h: "isViewInitialized ?s" "\<not> effects_destroyed ?s" "redraw_dirty ?s"
    unfolding s by (simp_all add: fields_notify_redraw started_fields)
  have g: "giraffe ?s = giraffe started" "calls ?s = calls started"
    "models_created ?s = models_created started"
    unfolding s by (simp_all add: fields_notify_redraw)
  have c: "calls (changeDetection (constant_random 0) ?s) =
       [NewScene, SceneAdd AmbientLight, SceneAdd DirectionalLight,
        NewModel 0 4, SceneAdd (Model 0),
        SceneRemove (Model 0),
        Dispose (GeometryOf 0 0), Dispose (MaterialOf 0 0),
        Dispose (GeometryOf 0 1), Dispose (MaterialOf 0 1),
        Dispose (GeometryOf 0 2), Dispose (MaterialOf 0 2),
        Dispose (GeometryOf 0 3), Dispose (MaterialOf 0 3),
        NewModel 1 4, SceneAdd (Model 1)]"
    by (simp add: changeDetection_redraws [OF h] calls_redrawGiraffe removeGiraffe_def g
        started_giraffe started_calls started_fields dispose_traverse_createGiraffe)
  show ?thesis
    using C2_at_most_one_model [of "constant_random 0" failing_parse True True
        "[AfterViewInit 800 600 1, ChangeDetection, NeckLengthChange 7, ChangeDetection]"] r c
    by simp
qed

section \<open>Export\<close>



lemma model_inv_None: "giraffe s = None \<Longrightarrow> model_inv s"
  by (simp add: model_inv_def)













section \<open>The parameters are not validated\<close>

lemma params_notify_redraw:
  "valid_parameters (notify_redraw s) = valid_parameters s"
  by (simp add: valid_parameters_def fields_notify_redraw)

lemma handler_then_changeDetection:
  assumes "isViewInitialized s" "\<not> effects_destroyed s"
    "redraw_dirty s \<or> redraw_reads_model s"
  shows
    "v \<noteq> neckLength s \<Longrightarrow>
       giraffe (changeDetection rng (onNeckLengthChange v s)) =
         Some (models_created s,
               createGiraffe v (legLength s) (hornLength s) (headSize s)
                 (giraffeColor s) (spotColor s) (\<lambda>i. rng (random_calls s + i)))"
    "v \<noteq> legLength s \<Longrightarrow>
       giraffe (changeDetection rng (onLegLengthChange v s)) =
         Some (models_created s,
               createGiraffe (neckLength s) v (hornLength s) (headSize s)
                 (giraffeColor s) (spotColor s) (\<lambda>i. rng (random_calls s + i)))"
    "v \<noteq> hornLength s \<Longrightarrow>
       giraffe (changeDetection rng (onHornLengthChange v s)) =
         Some (models_created s,
               createGiraffe (neckLength s) (legLength s) v (headSize s)
                 (giraffeColor s) (spotColor s) (\<lambda>i. rng (random_calls s + i)))"
    "v \<noteq> headSize s \<Longrightarrow>
       giraffe (changeDetection rng (onHeadSizeChange v s)) =
         Some (models_created s,
               createGiraffe (neckLength s) (legLength s) (hornLength s) v
                 (giraffeColor s) (spotColor s) (\<lambda>i. rng (random_calls s + i)))"
proof -
  have k: "giraffe (changeDetection rng (notify_redraw t)) =
       Some (models_created t,
             createGiraffe (neckLength t) (legLength t) (hornLength t) (headSize t)
               (giraffeColor t) (spotColor t) (\<lambda>i. rng (random_calls t + i)))"
    if "isViewInitialized t" "\<not> effects_destroyed t" "redraw_dirty t \<or> redraw_reads_model t"
    for t
    using that changeDetection_redraws(1) [of "notify_redraw t" rng]
    by (simp add: fields_notify_redraw)
  show "v \<noteq> neckLength s \<Longrightarrow>
       giraffe (changeDetection rng (onNeckLengthChange v s)) =
         Some (models_created s,
               createGiraffe v (legLength s) (hornLength s) (headSize s)
                 (giraffeColor s) (spotColor s) (\<lambda>i. rng (random_calls s + i)))"
    using assms k [of "s\<lparr>neckLength := v\<rparr>"] by (simp add: onNeckLengthChange_def)
  show "v \<noteq> legLength s \<Longrightarrow>
       giraffe (changeDetection rng (onLegLengthChange v s)) =
         Some (models_created s,
               createGiraffe (neckLength s) v (hornLength s) (headSize s)
                 (giraffeColor s) (spotColor s) (\<lambda>i. rng (random_calls s + i)))"
    using assms k [of "s\<lparr>legLength := v\<rparr>"] by (simp add: onLegLengthChange_def)
  show "v \<noteq> hornLength s \<Longrightarrow>
       giraffe (changeDetection rng (onHornLengthChange v s)) =
         Some (models_created s,
               createGiraffe (neckLength s) (legLength s) v (headSize s)
                 (giraffeColor s) (spotColor s) (\<lambda>i. rng (random_calls s + i)))"
    using assms k [of "s\<lparr>hornLength := v\<rparr>"] by (simp add: onHornLengthChange_def)
  show "v \<noteq> headSize s \<Longrightarrow>
       giraffe (changeDetection rng (onHeadSizeChange v s)) =
         Some (models_created s,
               createGiraffe (neckLength s) (legLength s) (hornLength s) v
                 (giraffeColor s) (spotColor s) (\<lambda>i. rng (random_calls s + i)))"
    using assms k [of "s\<lparr>headSize := v\<rparr>"] by (simp add: onHeadSizeChange_def)
qed

text \<open>In every state the component reaches, the first effect of an initialised view is dirty or subscribed.\<close>

lemma subscription_handle:
  "(isViewInitialized s \<longrightarrow> redraw_dirty s \<or> redraw_reads_model s) \<Longrightarrow>
   (isViewInitialized (handle rng parse e s) \<longrightarrow>
      redraw_dirty (handle rng parse e s) \<or> redraw_reads_model (handle rng parse e s))"
proof (cases e)
  case ChangeDetection
  then show "(isViewInitialized s \<longrightarrow> redraw_dirty s \<or> redraw_reads_model s) \<Longrightarrow> ?thesis"
    by (auto simp add: changeDetection_def Let_def run_redraw_effect_def
        run_autoRotate_effect_def redraw_effect_def autoRotate_effect_def fields_redrawGiraffe)
next
  case Destroy
  then show "(isViewInitialized s \<longrightarrow> redraw_dirty s \<or> redraw_reads_model s) \<Longrightarrow> ?thesis"
    by (simp add: destroy_def ngOnDestroy_def Let_def fields_removeGiraffe)
next
  case Download
  then show "(isViewInitialized s \<longrightarrow> redraw_dirty s \<or> redraw_reads_model s) \<Longrightarrow> ?thesis"
    by (simp add: downloadModel_def saveArrayBuffer_def saveString_def save_def
        split: option.splits parse_outcome.splits export_result.splits)
qed (auto simp add: ngAfterViewInit_def initThreeJs_def animate_def
      set_isViewInitialized_def onResize_def onGiraffeNameChange_def onNeckLengthChange_def
      onLegLengthChange_def onHornLengthChange_def onHeadSizeChange_def
      onGiraffeColorChange_def onSpotColorChange_def onAutoRotateChange_def
      notify_redraw_def notify_autoRotate_def)

lemma subscription_run:
  "(isViewInitialized s \<longrightarrow> redraw_dirty s \<or> redraw_reads_model s) \<Longrightarrow>
   (isViewInitialized (run rng parse s evs) \<longrightarrow>
      redraw_dirty (run rng parse s evs) \<or> redraw_reads_model (run rng parse s evs))"
  unfolding run_def
proof (induction evs arbitrary: s)
  case Nil
  then show ?case by simp
next
  case (Cons e evs)
  from Cons.prems have "isViewInitialized (handle rng parse e s) \<longrightarrow>
      redraw_dirty (handle rng parse e s) \<or> redraw_reads_model (handle rng parse e s)"
    by (rule subscription_handle)
  then show ?case using Cons.IH [of "handle rng parse e s"] by simp
qed

text \<open>
  Claim C8, as stated, fails. After the view is initialised, the event value -1 for the
  neck length is stored as it is, the parameters no longer satisfy the invariant, and at
  the next change detection the model is regenerated with a neck cylinder of height -1.
\<close>

theorem C8_counterexample:
  "neckLength (changeDetection (constant_random 0) (onNeckLengthChange (- 1) started)) = - 1
   \<and> \<not> valid_parameters (changeDetection (constant_random 0) (onNeckLengthChange (- 1) started))
   \<and> kind (neck_of (snd (the (giraffe
        (changeDetection (constant_random 0) (onNeckLengthChange (- 1) started))))))
       = CylinderGeometry 0.75 0.95 (- 1)"
proof -
  have h: "isViewInitialized started" "\<not> effects_destroyed started"
    "redraw_dirty started \<or> redraw_reads_model started" "(- 1 :: real) \<noteq> neckLength started"
    by (simp_all add: started_fields)
  have p: "neckLength (onNeckLengthChange (- 1) started) = - 1"
    "legLength (onNeckLengthChange (- 1) started) = 4"
    "hornLength (onNeckLengthChange (- 1) started) = 0.8"
    "headSize (onNeckLengthChange (- 1) started) = 1"
    by (simp_all add: onNeckLengthChange_def fields_notify_redraw started_fields)
  show ?thesis
    by (simp add: handler_then_changeDetection(1) [OF h] fields_changeDetection p
        valid_parameters_def neck_of_createGiraffe neckGeo_def translate_def
        new_geometry_def neckRadiusTop_def neckRadiusBottom_def)
qed

text \<open>
  Claim C8, amended. The four handlers store the number of the event unchanged, with no
  validation, and do nothing to the model themselves: after a handler the invariant (all
  four lengths positive) holds exactly when the new value is positive and the other three
  lengths were. The initial parameters satisfy the invariant. When the view is initialised,
  the component is alive and the first effect is dirty or subscribed (which it is in every
  state an initialised component reaches), a handler that changes the value of its
  parameter makes the next change detection regenerate the model from the value as it is;
  this holds for each of the four handlers. After the component is destroyed a change
  detection does nothing.
\<close>

theorem C8_no_validation_amended:
  "neckLength (onNeckLengthChange v s) = v
   \<and> legLength (onLegLengthChange v s) = v
   \<and> hornLength (onHornLengthChange v s) = v
   \<and> headSize (onHeadSizeChange v s) = v
   \<and> (valid_parameters (onNeckLengthChange v s)
        \<longleftrightarrow> 0 < v \<and> 0 < legLength s \<and> 0 < hornLength s \<and> 0 < headSize s)
   \<and> (valid_parameters (onLegLengthChange v s)
        \<longleftrightarrow> 0 < neckLength s \<and> 0 < v \<and> 0 < hornLength s \<and> 0 < headSize s)
   \<and> (valid_parameters (onHornLengthChange v s)
        \<longleftrightarrow> 0 < neckLength s \<and> 0 < legLength s \<and> 0 < v \<and> 0 < headSize s)
   \<and> (valid_parameters (onHeadSizeChange v s)
        \<longleftrightarrow> 0 < neckLength s \<and> 0 < legLength s \<and> 0 < hornLength s \<and> 0 < v)
   \<and> valid_parameters (initial_state a b)
   \<and> giraffe (onNeckLengthChange v s) = giraffe s
   \<and> giraffe (onLegLengthChange v s) = giraffe s
   \<and> giraffe (onHornLengthChange v s) = giraffe s
   \<and> giraffe (onHeadSizeChange v s) = giraffe s
   \<and> (isViewInitialized s \<and> \<not> effects_destroyed s
        \<and> (redraw_dirty s \<or> redraw_reads_model s) \<and> v \<noteq> neckLength s \<longrightarrow>
        giraffe (changeDetection rng (onNeckLengthChange v s)) =
          Some (models_created s,
                createGiraffe v (legLength s) (hornLength s) (headSize s)
                  (giraffeColor s) (spotColor s) (\<lambda>i. rng (random_calls s + i))))
   \<and> (isViewInitialized s \<and> \<not> effects_destroyed s
        \<and> (redraw_dirty s \<or> redraw_reads_model s) \<and> v \<noteq> legLength s \<longrightarrow>
        giraffe (changeDetection rng (onLegLengthChange v s)) =
          Some (models_created s,
                createGiraffe (neckLength s) v (hornLength s) (headSize s)
                  (giraffeColor s) (spotColor s) (\<lambda>i. rng (random_calls s + i))))
   \<and> (isViewInitialized s \<and> \<not> effects_destroyed s
        \<and> (redraw_dirty s \<or> redraw_reads_model s) \<and> v \<noteq> hornLength s \<longrightarrow>
        giraffe (changeDetection rng (onHornLengthChange v s)) =
          Some (models_created s,
                createGiraffe (neckLength s) (legLength s) v (headSize s)
                  (giraffeColor s) (spotColor s) (\<lambda>i. rng (random_calls s + i))))
   \<and> (isViewInitialized s \<and> \<not> effects_destroyed s
        \<and> (redraw_dirty s \<or> redraw_reads_model s) \<and> v \<noteq> headSize s \<longrightarrow>
        giraffe (changeDetection rng (onHeadSizeChange v s)) =
          Some (models_created s,
                createGiraffe (neckLength s) (legLength s) (hornLength s) v
                  (giraffeColor s) (spotColor s) (\<lambda>i. rng (random_calls s + i))))
   \<and> (isViewInitialized (run rng' parse (initial_state a b) evs) \<longrightarrow>
        redraw_dirty (run rng' parse (initial_state a b) evs)
        \<or> redraw_reads_model (run rng' parse (initial_state a b) evs))
   \<and> (effects_destroyed s \<longrightarrow> changeDetection rng s = s)"
proof -
  have st: "neckLength (onNeckLengthChange v s) = v \<and> legLength (onLegLengthChange v s) = v
      \<and> hornLength (onHornLengthChange v s) = v \<and> headSize (onHeadSizeChange v s) = v"
    by (simp add: onNeckLengthChange_def onLegLengthChange_def onHornLengthChange_def
        onHeadSizeChange_def fields_notify_redraw)
  have va: "(valid_parameters (onNeckLengthChange v s)
        \<longleftrightarrow> 0 < v \<and> 0 < legLength s \<and> 0 < hornLength s \<and> 0 < headSize s)
   \<and> (valid_parameters (onLegLengthChange v s)
        \<longleftrightarrow> 0 < neckLength s \<and> 0 < v \<and> 0 < hornLength s \<and> 0 < headSize s)
   \<and> (valid_parameters (onHornLengthChange v s)
        \<longleftrightarrow> 0 < neckLength s \<and> 0 < legLength s \<and> 0 < v \<and> 0 < headSize s)
   \<and> (valid_parameters (onHeadSizeChange v s)
        \<longleftrightarrow> 0 < neckLength s \<and> 0 < legLength s \<and> 0 < hornLength s \<and> 0 < v)
   \<and> valid_parameters (initial_state a b)"
    by (simp add: valid_parameters_def onNeckLengthChange_def onLegLengthChange_def
        onHornLengthChange_def onHeadSizeChange_def fields_notify_redraw initial_state_def)
  have gi: "giraffe (onNeckLengthChange v s) = giraffe s
   \<and> giraffe (onLegLengthChange v s) = giraffe s
   \<and> giraffe (onHornLengthChange v s) = giraffe s
   \<and> giraffe (onHeadSizeChange v s) = giraffe s"
    by (simp add: onNeckLengthChange_def onLegLengthChange_def onHornLengthChange_def
        onHeadSizeChange_def fields_notify_redraw)
  have re: "(isViewInitialized s \<and> \<not> effects_destroyed s
        \<and> (redraw_dirty s \<or> redraw_reads_model s) \<and> v \<noteq> neckLength s \<longrightarrow>
        giraffe (changeDetection rng (onNeckLengthChange v s)) =
          Some (models_created s,
                createGiraffe v (legLength s) (hornLength s) (headSize s)
                  (giraffeColor s) (spotColor s) (\<lambda>i. rng (random_calls s + i))))
   \<and> (isViewInitialized s \<and> \<not> effects_destroyed s
        \<and> (redraw_dirty s \<or> redraw_reads_model s) \<and> v \<noteq> legLength s \<longrightarrow>
        giraffe (changeDetection rng (onLegLengthChange v s)) =
          Some (models_created s,
                createGiraffe (neckLength s) v (hornLength s) (headSize s)
                  (giraffeColor s) (spotColor s) (\<lambda>i. rng (random_calls s + i))))
   \<and> (isViewInitialized s \<and> \<not> effects_destroyed s
        \<and> (redraw_dirty s \<or> redraw_reads_model s) \<and> v \<noteq> hornLength s \<longrightarrow>
        giraffe (changeDetection rng (onHornLengthChange v s)) =
          Some (models_created s,
                createGiraffe (neckLength s) (legLength s) v (headSize s)
                  (giraffeColor s) (spotColor s) (\<lambda>i. rng (random_calls s + i))))
   \<and> (isViewInitialized s \<and> \<not> effects_destroyed s
        \<and> (redraw_dirty s \<or> redraw_reads_model s) \<and> v \<noteq> headSize s \<longrightarrow>
        giraffe (changeDetection rng (onHeadSizeChange v s)) =
          Some (models_created s,
                createGiraffe (neckLength s) (legLength s) (hornLength s) v
                  (giraffeColor s) (spotColor s) (\<lambda>i. rng (random_calls s + i))))"
    using handler_then_changeDetection [of s v rng] by blast
  have su: "isViewInitialized (run rng' parse (initial_state a b) evs) \<longrightarrow>
        redraw_dirty (run rng' parse (initial_state a b) evs)
        \<or> redraw_reads_model (run rng' parse (initial_state a b) evs)"
    by (rule subscription_run) (simp add: initial_state_def)
  have de: "effects_destroyed s \<longrightarrow> changeDetection rng s = s"
    by (simp add: changeDetection_def)
  from st va gi re su de show ?thesis by (intro conjI) (blast+)
qed

text \<open>
  The amended claim C8 after the view is initialised and the change detection has run:
  the neck length 7, and the leg length 5.
\<close>

theorem C8_witness:
  "isViewInitialized started \<and> \<not> effects_destroyed started
   \<and> redraw_reads_model started
   \<and> (7 :: real) \<noteq> neckLength started \<and> (5 :: real) \<noteq> legLength started
   \<and> valid_parameters (onNeckLengthChange 7 started)
   \<and> kind (neck_of (snd (the (giraffe
        (changeDetection (constant_random 0) (onNeckLengthChange 7 started))))))
       = CylinderGeometry 0.75 0.95 7
   \<and> map kind (legs_of (snd (the (giraffe
        (changeDetection (constant_random 0) (onLegLengthChange 5 started))))))
       = [CylinderGeometry 0.4 0.3 5, CylinderGeometry 0.4 0.3 5,
          CylinderGeometry 0.4 0.3 5, CylinderGeometry 0.4 0.3 5]"
proof -
  have h: "isViewInitialized started" "\<not> effects_destroyed started"
    "redraw_reads_model started"
    "(7 :: real) \<noteq> neckLength started" "(5 :: real) \<noteq> legLength started"
    by (simp_all add: started_fields)
  have k: "kind (neck_of (createGiraffe 7 l hl hs c sc rnd)) = CylinderGeometry 0.75 0.95 7"
    for l hl hs c sc rnd
    by (simp add: neck_of_createGiraffe neckGeo_def translate_def new_geometry_def
        neckRadiusTop_def neckRadiusBottom_def)
  have lg: "map kind (legs_of (createGiraffe n 5 hl hs c sc rnd))
       = [CylinderGeometry 0.4 0.3 5, CylinderGeometry 0.4 0.3 5,
          CylinderGeometry 0.4 0.3 5, CylinderGeometry 0.4 0.3 5]"
    for n hl hs c sc rnd
    by (simp add: legs_of_createGiraffe legs_def legPositions_def translate_def clone_def
        legGeo_def new_geometry_def)
  from C8_no_validation_amended [of 7 started True True "constant_random 0"] h
  have n7: "valid_parameters (onNeckLengthChange 7 started)"
    and g7: "kind (neck_of (snd (the (giraffe
        (changeDetection (constant_random 0) (onNeckLengthChange 7 started))))))
       = CylinderGeometry 0.75 0.95 7"
    by (simp_all add: started_fields k)
  from C8_no_validation_amended [of 5 started True True "constant_random 0"] h
  have g5: "map kind (legs_of (snd (the (giraffe
        (changeDetection (constant_random 0) (onLegLengthChange 5 started))))))
       = [CylinderGeometry 0.4 0.3 5, CylinderGeometry 0.4 0.3 5,
          CylinderGeometry 0.4 0.3 5, CylinderGeometry 0.4 0.3 5]"
    by (simp add: started_fields lg)
  from h n7 g7 g5 show ?thesis by (intro conjI) assumption+
qed

section \<open>Resize\<close>

text \<open>
  Claim C9. When the width or the height of the container is zero, \<open>onResize\<close> returns the
  state unchanged (camera and renderer included); the model has no error result, as the
  source has no \<open>throw\<close>. When the container, the camera and the renderer exist and both
  are non-zero, the aspect of the camera and of its projection becomes width / height and
  the size of the renderer becomes (width, height); the calls on the library and the
  model stay as they were.
\<close>

theorem C9_resize:
  "(width = 0 \<or> height = 0 \<longrightarrow> onResize width height s = s)
   \<and> (canvasContainerRef s \<and> camera s = Some c \<and> renderer s = Some r
        \<and> width \<noteq> 0 \<and> height \<noteq> 0 \<longrightarrow>
      camera (onResize width height s) =
        Some (c\<lparr>aspect := Some (real width / real height),
                projection_aspect := Some (real width / real height)\<rparr>)
      \<and> renderer (onResize width height s) = Some (r\<lparr>renderer_size := (width, height)\<rparr>)
      \<and> calls (onResize width height s) = calls s
      \<and> giraffe (onResize width height s) = giraffe s)"
  by (auto simp add: onResize_def js_div_def)

text \<open>
  Claim C9 after the view is initialised at 800 by 600: zero width, zero height, and a
  resize to 1000 by 500, which changes the aspect from 4/3 to 2.
\<close>

theorem C9_witness:
  "onResize 0 600 started = started
   \<and> onResize 1000 0 started = started
   \<and> canvasContainerRef started
   \<and> camera started = Some \<lparr>aspect = Some (4 / 3), projection_aspect = Some (4 / 3)\<rparr>
   \<and> camera (onResize 1000 500 started) =
       Some \<lparr>aspect = Some 2, projection_aspect = Some 2\<rparr>
   \<and> renderer (onResize 1000 500 started) =
       Some \<lparr>renderer_size = (1000, 500), renderer_disposed = False\<rparr>"
proof -
  have z: "onResize 0 600 started = started" "onResize 1000 0 started = started"
    using C9_resize [of 0 600 started] C9_resize [of 1000 0 started] by simp_all
  from C9_resize [of 1000 500 started
      "\<lparr>aspect = Some (800 / 600), projection_aspect = Some (800 / 600)\<rparr>"
      "\<lparr>renderer_size = (800, 600), renderer_disposed = False\<rparr>"]
  have "camera (onResize 1000 500 started) =
       Some \<lparr>aspect = Some 2, projection_aspect = Some 2\<rparr>
     \<and> renderer (onResize 1000 500 started) =
       Some \<lparr>renderer_size = (1000, 500), renderer_disposed = False\<rparr>"
    by (simp add: started_fields)
  with z show ?thesis by (simp add: started_fields)
qed

end
